theory Spec2Isabelle
  imports Main "HOL-Library.AList" "HOL-Library.Sublist"
begin

section \<open>JSON values\<close>

text \<open>
  The values that \<^verbatim>\<open>JSON.parse\<close> produces and \<^verbatim>\<open>JSON.stringify\<close> consumes.
  An object is an association list in insertion order. Numbers are restricted to
  integers: no function modelled here computes with them.
\<close>

datatype json =
    JNull
  | JBool bool
  | JNum int
  | JString string
  | JArray "json list"
  | JObject "(string \<times> json) list"

subsection \<open>A model of \<^verbatim>\<open>JSON.parse\<close> on the integer fragment of JSON\<close>

text \<open>
  \<^verbatim>\<open>JSON.parse\<close> is a builtin of the JavaScript runtime. Every function below that
  parses takes the parser as a parameter (\<open>string \<Rightarrow> json option\<close>, \<open>None\<close> for a thrown
  \<^verbatim>\<open>SyntaxError\<close>), and the general theorems hold for every parser. The recursive
  descent parser defined here is the parser used at concrete inputs. It reads
  whitespace, the three literals, integers, strings with the escapes
  \<^verbatim>\<open>\" \\ \/ \n\<close>, arrays and objects; numbers with a fraction or an exponent and the
  other escapes are outside the fragment and are refused. The first argument of the
  mutually recursive functions is fuel; \<open>JSON_parse\<close> supplies more than the input
  can use.
\<close>

definition is_ws :: "char \<Rightarrow> bool" where
  "is_ws c = (c = CHR '' '' \<or> c = CHR 0x09 \<or> c = CHR 0x0A \<or> c = CHR 0x0D)"

fun skip_ws :: "string \<Rightarrow> string" where
  "skip_ws [] = []"
| "skip_ws (c # cs) = (if is_ws c then skip_ws cs else c # cs)"

definition is_digit :: "char \<Rightarrow> bool" where
  "is_digit c = (48 \<le> (of_char c :: nat) \<and> (of_char c :: nat) \<le> 57)"

definition digit_val :: "char \<Rightarrow> nat" where
  "digit_val c = of_char c - 48"

fun parse_digits :: "nat \<Rightarrow> string \<Rightarrow> nat \<times> string" where
  "parse_digits acc [] = (acc, [])"
| "parse_digits acc (c # cs) =
     (if is_digit c then parse_digits (10 * acc + digit_val c) cs else (acc, c # cs))"

definition number_end :: "json \<Rightarrow> string \<Rightarrow> (json \<times> string) option" where
  "number_end v r =
     (case r of
        [] \<Rightarrow> Some (v, r)
      | c # _ \<Rightarrow> if c = CHR ''.'' \<or> c = CHR ''e'' \<or> c = CHR ''E'' then None else Some (v, r))"

definition parse_unsigned :: "bool \<Rightarrow> string \<Rightarrow> (json \<times> string) option" where
  "parse_unsigned neg r =
     (case r of
        [] \<Rightarrow> None
      | d # ds \<Rightarrow>
          if \<not> is_digit d then None
          else if d = CHR ''0'' then
            (case ds of
               [] \<Rightarrow> Some (JNum 0, [])
             | d2 # _ \<Rightarrow> if is_digit d2 then None else number_end (JNum 0) ds)
          else (case parse_digits 0 r of
                  (n, rest) \<Rightarrow> number_end (JNum (if neg then - int n else int n)) rest))"

definition parse_number :: "string \<Rightarrow> (json \<times> string) option" where
  "parse_number s =
     (case s of
        [] \<Rightarrow> None
      | c # cs \<Rightarrow> if c = CHR ''-'' then parse_unsigned True cs else parse_unsigned False s)"

fun parse_chars :: "string \<Rightarrow> string \<Rightarrow> (string \<times> string) option" where
  "parse_chars acc [] = None"
| "parse_chars acc [c] = (if c = CHR 0x22 then Some (rev acc, []) else None)"
| "parse_chars acc (c # e # cs) =
     (if c = CHR 0x22 then Some (rev acc, e # cs)
      else if c = CHR 0x5C then
        (if e = CHR 0x22 \<or> e = CHR 0x5C \<or> e = CHR ''/'' then parse_chars (e # acc) cs
         else if e = CHR ''n'' then parse_chars (CHR 0x0A # acc) cs
         else None)
      else if (of_char c :: nat) < 32 then None
      else parse_chars (c # acc) (e # cs))"

fun parse_value :: "nat \<Rightarrow> string \<Rightarrow> (json \<times> string) option"
  and parse_elements :: "nat \<Rightarrow> json list \<Rightarrow> string \<Rightarrow> (json list \<times> string) option"
  and parse_members ::
    "nat \<Rightarrow> (string \<times> json) list \<Rightarrow> string \<Rightarrow> ((string \<times> json) list \<times> string) option"
where
  "parse_value 0 s = None"
| "parse_value (Suc n) s =
     (case skip_ws s of
        [] \<Rightarrow> None
      | c # cs \<Rightarrow>
          if c = CHR ''{'' then
            (case skip_ws cs of
               [] \<Rightarrow> None
             | c2 # cs2 \<Rightarrow>
                 if c2 = CHR ''}'' then Some (JObject [], cs2)
                 else map_option (\<lambda>(ms, r). (JObject ms, r)) (parse_members n [] (c2 # cs2)))
          else if c = CHR ''['' then
            (case skip_ws cs of
               [] \<Rightarrow> None
             | c2 # cs2 \<Rightarrow>
                 if c2 = CHR '']'' then Some (JArray [], cs2)
                 else map_option (\<lambda>(vs, r). (JArray vs, r)) (parse_elements n [] (c2 # cs2)))
          else if c = CHR 0x22 then map_option (\<lambda>(str, r). (JString str, r)) (parse_chars [] cs)
          else if take 4 (c # cs) = ''true'' then Some (JBool True, drop 4 (c # cs))
          else if take 5 (c # cs) = ''false'' then Some (JBool False, drop 5 (c # cs))
          else if take 4 (c # cs) = ''null'' then Some (JNull, drop 4 (c # cs))
          else parse_number (c # cs))"
| "parse_elements 0 acc s = None"
| "parse_elements (Suc n) acc s =
     (case parse_value n s of
        None \<Rightarrow> None
      | Some (v, r) \<Rightarrow>
          (case skip_ws r of
             [] \<Rightarrow> None
           | c # cs \<Rightarrow>
               if c = CHR '','' then parse_elements n (acc @ [v]) cs
               else if c = CHR '']'' then Some (acc @ [v], cs)
               else None))"
| "parse_members 0 acc s = None"
| "parse_members (Suc n) acc s =
     (case skip_ws s of
        [] \<Rightarrow> None
      | c # cs \<Rightarrow>
          if c \<noteq> CHR 0x22 then None
          else
            (case parse_chars [] cs of
               None \<Rightarrow> None
             | Some (k, r) \<Rightarrow>
                 (case skip_ws r of
                    [] \<Rightarrow> None
                  | c2 # r2 \<Rightarrow>
                      if c2 \<noteq> CHR '':'' then None
                      else
                        (case parse_value n r2 of
                           None \<Rightarrow> None
                         | Some (v, r3) \<Rightarrow>
                             (case skip_ws r3 of
                                [] \<Rightarrow> None
                              | c3 # r4 \<Rightarrow>
                                  if c3 = CHR '','' then parse_members n (AList.update k v acc) r4
                                  else if c3 = CHR ''}'' then Some (AList.update k v acc, r4)
                                  else None)))))"

definition JSON_parse :: "string \<Rightarrow> json option" where
  "JSON_parse s =
     (case parse_value (Suc (Suc (2 * length s))) s of
        None \<Rightarrow> None
      | Some (v, r) \<Rightarrow> if skip_ws r = [] then Some v else None)"

subsection \<open>A model of \<^verbatim>\<open>JSON.stringify\<close>\<close>

text \<open>
  \<^verbatim>\<open>JSON.stringify\<close> is a builtin as well and a parameter (\<open>json \<Rightarrow> string\<close>) of every
  function that calls it; this is the instance used at concrete inputs.
\<close>

definition digit_char :: "nat \<Rightarrow> char" where
  "digit_char d = char_of (48 + d)"

fun digits_of :: "nat \<Rightarrow> string" where
  "digits_of n = (if n < 10 then [digit_char n] else digits_of (n div 10) @ [digit_char (n mod 10)])"

fun escape_chars :: "string \<Rightarrow> string" where
  "escape_chars [] = []"
| "escape_chars (c # cs) =
     (if c = CHR 0x22 \<or> c = CHR 0x5C then CHR 0x5C # c # escape_chars cs
      else if c = CHR 0x0A then CHR 0x5C # CHR ''n'' # escape_chars cs
      else c # escape_chars cs)"

definition quote :: "string \<Rightarrow> string" where
  "quote s = CHR 0x22 # escape_chars s @ [CHR 0x22]"

fun join_comma :: "string list \<Rightarrow> string" where
  "join_comma [] = []"
| "join_comma [x] = x"
| "join_comma (x # y # ys) = x @ '','' @ join_comma (y # ys)"

fun JSON_stringify :: "json \<Rightarrow> string"
  and stringify_elements :: "json list \<Rightarrow> string list"
  and stringify_members :: "(string \<times> json) list \<Rightarrow> string list"
where
  "JSON_stringify JNull = ''null''"
| "JSON_stringify (JBool b) = (if b then ''true'' else ''false'')"
| "JSON_stringify (JNum i) = (if i < 0 then CHR ''-'' # digits_of (nat (- i)) else digits_of (nat i))"
| "JSON_stringify (JString s) = quote s"
| "JSON_stringify (JArray vs) = ''['' @ join_comma (stringify_elements vs) @ '']''"
| "JSON_stringify (JObject ms) = ''{'' @ join_comma (stringify_members ms) @ ''}''"
| "stringify_elements [] = []"
| "stringify_elements (v # vs) = JSON_stringify v # stringify_elements vs"
| "stringify_members [] = []"
| "stringify_members ((k, v) # ms) = (quote k @ '':'' @ JSON_stringify v) # stringify_members ms"

text \<open>
  \<^verbatim>\<open>v4()\<close> of the \<^verbatim>\<open>uuid\<close> package is a parameter too: a function from the number of
  identifiers drawn so far to the next one. This is the instance used at concrete
  inputs.
\<close>

definition uuidSupply :: "nat \<Rightarrow> string" where
  "uuidSupply n = ''uuid-'' @ digits_of n"

subsection \<open>\<^verbatim>\<open>safeJsonParse\<close>\<close>

text \<open>
  Modelled from the spec: \<^verbatim>\<open>safeJsonParse\<close> is imported from \<^verbatim>\<open>utils/http\<close>, which is
  not among the sources. The text says of it only that the string is parsed as JSON and
  that a parse failure yields the fallback passed as second argument. The parser is
  the parameter \<open>parse\<close>.
\<close>

definition safeJsonParse :: "(string \<Rightarrow> json option) \<Rightarrow> string \<Rightarrow> json \<Rightarrow> json" where
  "safeJsonParse parse jsonString fallback =
     (case parse jsonString of None \<Rightarrow> fallback | Some v \<Rightarrow> v)"

section \<open>Errors\<close>

text \<open>
  The exceptions the adapters distinguish with \<^verbatim>\<open>instanceof\<close>. In the OpenAI SDK
  \<^verbatim>\<open>AuthenticationError\<close>, \<^verbatim>\<open>RateLimitError\<close> and \<^verbatim>\<open>InternalServerError\<close> are subclasses
  of \<^verbatim>\<open>APIError\<close>; \<open>OtherAPIError\<close> stands for \<^verbatim>\<open>APIError\<close> itself and its remaining
  subclasses. \<open>RetryError\<close> is the repository's own class, \<open>JsError\<close> any other
  exception (\<^verbatim>\<open>TypeError\<close>, \<^verbatim>\<open>Error\<close>). Each carries its message.
  \<open>instanceof e OtherAPIError\<close> is the test \<^verbatim>\<open>e instanceof OpenAI.APIError\<close>, which holds
  of every error of the client; for the three subclasses \<open>instanceof\<close> compares the
  class.
\<close>

datatype apiErrorClass = AuthenticationError | RateLimitError | InternalServerError | OtherAPIError

datatype error =
    OpenAIError apiErrorClass string
  | RetryError string
  | JsError string

fun error_message :: "error \<Rightarrow> string" where
  "error_message (OpenAIError _ m) = m"
| "error_message (RetryError m) = m"
| "error_message (JsError m) = m"

fun instanceof :: "error \<Rightarrow> apiErrorClass \<Rightarrow> bool" where
  "instanceof (OpenAIError c _) OtherAPIError = True"
| "instanceof (OpenAIError c _) k = (c = k)"
| "instanceof _ _ = False"

section \<open>The shared native tool calling helpers (\<^verbatim>\<open>helpers/tooled.js\<close>)\<close>

subsection \<open>Data\<close>

text \<open>JavaScript truthiness of an optional string: present and not empty.\<close>

definition truthy :: "string option \<Rightarrow> bool" where
  "truthy s = (case s of None \<Rightarrow> False | Some x \<Rightarrow> x \<noteq> [])"

text \<open>\<^verbatim>\<open>s || ""\<close> for an optional string.\<close>

definition orEmpty :: "string option \<Rightarrow> string" where
  "orEmpty s = (case s of None \<Rightarrow> [] | Some x \<Rightarrow> x)"

record functionDef =
  fn_name :: string
  fn_description :: string
  fn_parameters :: json

record tool =
  tool_type :: string
  tool_function :: functionDef

text \<open>
  A value that is either a string or something else, as \<^verbatim>\<open>typeof x === "string"\<close>
  tells them apart; \<^verbatim>\<open>null\<close> is \<open>Structured JNull\<close>.
\<close>

datatype jsContent = Text string | Structured json

record functionCallMeta =
  ofc_id :: "string option"
  ofc_name :: string
  ofc_arguments :: jsContent

record toolCallWire =
  tcw_id :: string
  tcw_type :: string
  tcw_name :: "string option"
  tcw_arguments :: string

text \<open>
  A message of the history and of the request. JavaScript objects are open, and
  \<^verbatim>\<open>formatMessagesForTools\<close> pushes input messages unchanged beside the ones it builds, so
  one record has the fields of both; an absent field is \<open>None\<close>.
\<close>

record message =
  role :: string
  content :: jsContent
  name :: "string option"
  originalFunctionCall :: "functionCallMeta option"
  reasoning_content :: "string option"
  tool_calls :: "toolCallWire list option"
  tool_call_id :: "string option"

record options =
  injectReasoningContent :: bool

record toolCall =
  call_id :: "string option"
  call_name :: string
  call_arguments :: json

text \<open>
  The object the drivers return: \<open>None\<close> is \<^verbatim>\<open>null\<close> or an absent field.
\<close>

record completionResult =
  textResponse :: "string option"
  functionCall :: "toolCall option"
  retryWithError :: "message option"
  cost :: "int option"

record chatRequest =
  req_model :: string
  req_stream :: bool
  req_messages :: "message list"
  req_tools :: "tool list option"

subsection \<open>\<^verbatim>\<open>formatFunctionsToTools\<close>\<close>

text \<open>The argument is \<open>None\<close> when it is not an array.\<close>

definition formatFunctionsToTools :: "functionDef list option \<Rightarrow> tool list" where
  "formatFunctionsToTools functions =
     (case functions of
        None \<Rightarrow> []
      | Some fs \<Rightarrow>
          if length fs = 0 then []
          else map (\<lambda>func. \<lparr>tool_type = ''function'',
                       tool_function = \<lparr>fn_name = fn_name func,
                                        fn_description = fn_description func,
                                        fn_parameters = fn_parameters func\<rparr>\<rparr>) fs)"

subsection \<open>\<^verbatim>\<open>formatMessagesForTools\<close>\<close>

text \<open>
  \<^verbatim>\<open>typeof x === "string" ? x : JSON.stringify(x)\<close>; \<^verbatim>\<open>JSON.stringify\<close> is the
  parameter \<open>stringify\<close>.
\<close>

definition stringOrStringify :: "(json \<Rightarrow> string) \<Rightarrow> jsContent \<Rightarrow> string" where
  "stringOrStringify stringify c = (case c of Text s \<Rightarrow> s | Structured j \<Rightarrow> stringify j)"

definition assistantCallMessage :: "options \<Rightarrow> string \<Rightarrow> string option \<Rightarrow> string \<Rightarrow> message" where
  "assistantCallMessage opts cid fname args =
     \<lparr>role = ''assistant'', content = Structured JNull, name = None,
      originalFunctionCall = None,
      reasoning_content = (if injectReasoningContent opts then Some [] else None),
      tool_calls = Some [\<lparr>tcw_id = cid, tcw_type = ''function'', tcw_name = fname,
                          tcw_arguments = args\<rparr>],
      tool_call_id = None\<rparr>"

definition toolResultMessage :: "(json \<Rightarrow> string) \<Rightarrow> string \<Rightarrow> jsContent \<Rightarrow> message" where
  "toolResultMessage stringify cid c =
     \<lparr>role = ''tool'', content = Text (stringOrStringify stringify c), name = None,
      originalFunctionCall = None, reasoning_content = None, tool_calls = None,
      tool_call_id = Some cid\<rparr>"

text \<open>
  \<^verbatim>\<open>!prevMsg || prevMsg.role !== "assistant" || !prevMsg.tool_calls\<close>, where
  \<^verbatim>\<open>prevMsg\<close> is the last formatted message; an array is truthy even when empty.
\<close>

definition needsAssistantCall :: "message list \<Rightarrow> bool" where
  "needsAssistantCall formattedMessages =
     (formattedMessages = [] \<or> role (last formattedMessages) \<noteq> ''assistant''
      \<or> tool_calls (last formattedMessages) = None)"

text \<open>
  One iteration of the loop. The state is the array \<^verbatim>\<open>formattedMessages\<close> and the
  number of identifiers drawn from \<^verbatim>\<open>v4()\<close> so far: the \<open>n\<close>-th draw is \<open>v4 n\<close>.
\<close>

definition formatMessage ::
  "(json \<Rightarrow> string) \<Rightarrow> (nat \<Rightarrow> string) \<Rightarrow> options \<Rightarrow> message \<Rightarrow> message list \<times> nat
     \<Rightarrow> message list \<times> nat" where
  "formatMessage stringify v4 opts msg st =
     (case st of (formattedMessages, n) \<Rightarrow>
        if role msg = ''function'' then
          (case originalFunctionCall msg of
             None \<Rightarrow>
               (formattedMessages
                  @ [assistantCallMessage opts (''call_'' @ v4 n) (name msg) ''{}'',
                     toolResultMessage stringify (''call_'' @ v4 n) (content msg)], Suc n)
           | Some ofc \<Rightarrow>
               (case ofc_id ofc of
                  None \<Rightarrow>
                    (formattedMessages
                       @ [assistantCallMessage opts (''call_'' @ v4 n) (name msg) ''{}'',
                          toolResultMessage stringify (''call_'' @ v4 n) (content msg)], Suc n)
                | Some i \<Rightarrow>
                    if i = [] then
                      (formattedMessages
                         @ [assistantCallMessage opts (''call_'' @ v4 n) (name msg) ''{}'',
                            toolResultMessage stringify (''call_'' @ v4 n) (content msg)], Suc n)
                    else
                      (formattedMessages
                         @ (if needsAssistantCall formattedMessages
                            then [assistantCallMessage opts i (Some (ofc_name ofc))
                                    (stringOrStringify stringify (ofc_arguments ofc))]
                            else [])
                         @ [toolResultMessage stringify i (content msg)], n)))
        else if injectReasoningContent opts \<and> role msg = ''assistant''
                \<and> reasoning_content msg = None
          then (formattedMessages @ [msg\<lparr>reasoning_content := Some []\<rparr>], n)
        else (formattedMessages @ [msg], n))"

fun formatMessagesLoop ::
  "(json \<Rightarrow> string) \<Rightarrow> (nat \<Rightarrow> string) \<Rightarrow> options \<Rightarrow> message list \<Rightarrow> message list \<times> nat
     \<Rightarrow> message list \<times> nat" where
  "formatMessagesLoop stringify v4 opts [] st = st"
| "formatMessagesLoop stringify v4 opts (msg # rest) st =
     formatMessagesLoop stringify v4 opts rest (formatMessage stringify v4 opts msg st)"

text \<open>\<open>n0\<close> is the number of identifiers drawn before the call.\<close>

definition formatMessagesForTools ::
  "(json \<Rightarrow> string) \<Rightarrow> (nat \<Rightarrow> string) \<Rightarrow> nat \<Rightarrow> message list \<Rightarrow> options \<Rightarrow> message list" where
  "formatMessagesForTools stringify v4 n0 messages opts =
     fst (formatMessagesLoop stringify v4 opts messages ([], n0))"

subsection \<open>\<^verbatim>\<open>tooledStream\<close>\<close>

text \<open>
  A fragment of a tool call in a streamed chunk: \<^verbatim>\<open>index\<close>, \<^verbatim>\<open>id\<close>,
  \<^verbatim>\<open>function?.name\<close> and \<^verbatim>\<open>function?.arguments\<close>, each possibly absent.
\<close>

record toolCallDelta =
  tcd_index :: "nat option"
  tcd_id :: "string option"
  tcd_name :: "string option"
  tcd_arguments :: "string option"

text \<open>
  \<^verbatim>\<open>choices[0].delta\<close> of a chunk. A chunk is a \<open>delta option\<close>: \<open>None\<close> when
  \<^verbatim>\<open>chunk?.choices?.[0]\<close> is missing, so that the loop skips it; a choice without a
  delta is a delta with both fields absent.
\<close>

record delta =
  delta_content :: "string option"
  delta_tool_calls :: "toolCallDelta list option"

type_synonym chunk = "delta option"

record toolCallAcc =
  acc_id :: string
  acc_name :: string
  acc_arguments :: string

text \<open>The object handed to \<^verbatim>\<open>eventHandler("reportStreamEvent", ...)\<close>.\<close>

record streamEvent =
  ev_type :: string
  ev_uuid :: string
  ev_content :: string

text \<open>
  The variables of the loop: \<^verbatim>\<open>result.textResponse\<close>, \<^verbatim>\<open>toolCallsByIndex\<close> (an
  association list from index to accumulator) and the events reported so far.
\<close>

record streamState =
  st_textResponse :: string
  st_toolCallsByIndex :: "(nat \<times> toolCallAcc) list"
  st_events :: "streamEvent list"

definition assembleToolCall :: "toolCallDelta \<Rightarrow> (nat \<times> toolCallAcc) list \<Rightarrow> (nat \<times> toolCallAcc) list" where
  "assembleToolCall toolCall tbl =
     (let idx = (case tcd_index toolCall of None \<Rightarrow> 0 | Some i \<Rightarrow> i) in
      if truthy (tcd_id toolCall) then
        AList.update idx \<lparr>acc_id = orEmpty (tcd_id toolCall),
                          acc_name = orEmpty (tcd_name toolCall),
                          acc_arguments = orEmpty (tcd_arguments toolCall)\<rparr> tbl
      else
        (case map_of tbl idx of
           None \<Rightarrow> tbl
         | Some a \<Rightarrow>
             AList.update idx
               (a\<lparr>acc_name := acc_name a @ (if truthy (tcd_name toolCall)
                                             then orEmpty (tcd_name toolCall) else []),
                  acc_arguments := acc_arguments a @ (if truthy (tcd_arguments toolCall)
                                             then orEmpty (tcd_arguments toolCall) else [])\<rparr>)
               tbl))"

definition mergeToolCall :: "string \<Rightarrow> toolCallDelta \<Rightarrow> streamState \<Rightarrow> streamState" where
  "mergeToolCall msgUUID toolCall st =
     (let idx = (case tcd_index toolCall of None \<Rightarrow> 0 | Some i \<Rightarrow> i);
          tbl = assembleToolCall toolCall (st_toolCallsByIndex st)
      in st\<lparr>st_toolCallsByIndex := tbl,
            st_events := st_events st @
              (case map_of tbl idx of
                 None \<Rightarrow> []
               | Some a \<Rightarrow>
                   [\<lparr>ev_type = ''toolCallInvocation'',
                     ev_uuid = msgUUID @ '':tool_call_invocation'',
                     ev_content = ''Assembling Tool Call: '' @ acc_name a @ ''('' @ acc_arguments a @ '')''\<rparr>])\<rparr>)"

definition processChunk :: "string \<Rightarrow> chunk \<Rightarrow> streamState \<Rightarrow> streamState" where
  "processChunk msgUUID ch st =
     (case ch of
        None \<Rightarrow> st
      | Some d \<Rightarrow>
          (let st1 = (if truthy (delta_content d)
                      then st\<lparr>st_textResponse := st_textResponse st @ orEmpty (delta_content d),
                              st_events := st_events st @
                                [\<lparr>ev_type = ''textResponseChunk'', ev_uuid = msgUUID,
                                  ev_content = orEmpty (delta_content d)\<rparr>]\<rparr>
                      else st)
           in case delta_tool_calls d of
                None \<Rightarrow> st1
              | Some tcs \<Rightarrow> fold (mergeToolCall msgUUID) tcs st1))"

definition initialStreamState :: streamState where
  "initialStreamState = \<lparr>st_textResponse = [], st_toolCallsByIndex = [], st_events = []\<rparr>"

text \<open>
  After the loop: the accumulator at \<^verbatim>\<open>Math.min(...toolCallIndices)\<close>, its arguments
  parsed by \<^verbatim>\<open>safeJsonParse(firstToolCall.arguments, {})\<close>. The index found by \<open>Min\<close> is
  a key of the table, so the \<open>None\<close> branch of the lookup is never taken.
\<close>

definition firstFunctionCall :: "(string \<Rightarrow> json option) \<Rightarrow> (nat \<times> toolCallAcc) list \<Rightarrow> toolCall option" where
  "firstFunctionCall parse toolCallsByIndex =
     (let toolCallIndices = map fst toolCallsByIndex in
      if length toolCallIndices > 0 then
        (case map_of toolCallsByIndex (Min (set toolCallIndices)) of
           None \<Rightarrow> None
         | Some firstToolCall \<Rightarrow>
             Some \<lparr>call_id = Some (acc_id firstToolCall),
                   call_name = acc_name firstToolCall,
                   call_arguments = safeJsonParse parse (acc_arguments firstToolCall) (JObject [])\<rparr>)
      else None)"

definition streamResult :: "(string \<Rightarrow> json option) \<Rightarrow> streamState \<Rightarrow> completionResult" where
  "streamResult parse st =
     \<lparr>textResponse = Some (st_textResponse st),
      functionCall = firstFunctionCall parse (st_toolCallsByIndex st),
      retryWithError = None, cost = None\<rparr>"

text \<open>
  The request of \<^verbatim>\<open>tooledStream\<close> and of \<^verbatim>\<open>tooledComplete\<close>:
  \<^verbatim>\<open>...(tools.length > 0 ? { tools } : {})\<close>. \<^verbatim>\<open>tooledStream\<close> draws \<^verbatim>\<open>msgUUID\<close> from
  \<^verbatim>\<open>v4()\<close> before it formats the messages, \<^verbatim>\<open>tooledComplete\<close> draws none.
\<close>

definition toolsField :: "tool list \<Rightarrow> tool list option" where
  "toolsField tools = (if length tools > 0 then Some tools else None)"

definition streamRequest ::
  "(json \<Rightarrow> string) \<Rightarrow> (nat \<Rightarrow> string) \<Rightarrow> string \<Rightarrow> message list \<Rightarrow> functionDef list option
     \<Rightarrow> options \<Rightarrow> chatRequest" where
  "streamRequest stringify v4 model messages functions opts =
     \<lparr>req_model = model, req_stream = True,
      req_messages = formatMessagesForTools stringify v4 1 messages opts,
      req_tools = toolsField (formatFunctionsToTools functions)\<rparr>"

definition completeRequest ::
  "(json \<Rightarrow> string) \<Rightarrow> (nat \<Rightarrow> string) \<Rightarrow> string \<Rightarrow> message list \<Rightarrow> functionDef list option
     \<Rightarrow> options \<Rightarrow> chatRequest" where
  "completeRequest stringify v4 model messages functions opts =
     \<lparr>req_model = model, req_stream = False,
      req_messages = formatMessagesForTools stringify v4 0 messages opts,
      req_tools = toolsField (formatFunctionsToTools functions)\<rparr>"

text \<open>
  \<open>createStream\<close> is \<^verbatim>\<open>client.chat.completions.create\<close> with \<^verbatim>\<open>stream: true\<close>, together
  with the iteration over the stream it returns: the chunks, or the exception thrown
  by the request or while iterating. The result is the returned object and the events
  reported to \<^verbatim>\<open>eventHandler\<close>.
\<close>

definition tooledStream ::
  "(string \<Rightarrow> json option) \<Rightarrow> (json \<Rightarrow> string) \<Rightarrow> (nat \<Rightarrow> string)
     \<Rightarrow> (chatRequest \<Rightarrow> error + chunk list) \<Rightarrow> string \<Rightarrow> message list
     \<Rightarrow> functionDef list option \<Rightarrow> options \<Rightarrow> error + (completionResult \<times> streamEvent list)" where
  "tooledStream parse stringify v4 createStream model messages functions opts =
     (case createStream (streamRequest stringify v4 model messages functions opts) of
        Inl e \<Rightarrow> Inl e
      | Inr chunks \<Rightarrow>
          (let st = fold (processChunk (v4 0)) chunks initialStreamState
           in Inr (streamResult parse st, st_events st)))"

subsection \<open>\<^verbatim>\<open>tooledComplete\<close>\<close>

record responseToolCall =
  rtc_id :: string
  rtc_name :: string
  rtc_arguments :: string

text \<open>\<^verbatim>\<open>response.choices[i].message\<close>: its content and its tool calls.\<close>

record completionMessage =
  cm_content :: "string option"
  cm_tool_calls :: "responseToolCall list option"

record chatResponse =
  choices :: "completionMessage list"
  usage :: json

definition retryMessage :: "responseToolCall \<Rightarrow> message" where
  "retryMessage toolCall =
     \<lparr>role = ''function'',
      content = Text (''Failed to parse tool call arguments as JSON. Raw arguments: ''
                        @ rtc_arguments toolCall),
      name = Some (rtc_name toolCall),
      originalFunctionCall = Some \<lparr>ofc_id = Some (rtc_id toolCall), ofc_name = rtc_name toolCall,
                                    ofc_arguments = Text (rtc_arguments toolCall)\<rparr>,
      reasoning_content = None, tool_calls = None, tool_call_id = None\<rparr>"

text \<open>
  The part of \<^verbatim>\<open>tooledComplete\<close> after the response has arrived.
  \<^verbatim>\<open>response.choices[0].message\<close> of a response without choices throws a
  \<^verbatim>\<open>TypeError\<close>.
\<close>

definition completionOf ::
  "(string \<Rightarrow> json option) \<Rightarrow> (json \<Rightarrow> int) \<Rightarrow> chatResponse \<Rightarrow> error + completionResult" where
  "completionOf parse getCostFn response =
     (case choices response of
        [] \<Rightarrow> Inl (JsError ''Cannot read properties of undefined'')
      | completion # _ \<Rightarrow>
          (let c = getCostFn (usage response) in
           case cm_tool_calls completion of
             None \<Rightarrow> Inr \<lparr>textResponse = cm_content completion, functionCall = None,
                          retryWithError = None, cost = Some c\<rparr>
           | Some [] \<Rightarrow> Inr \<lparr>textResponse = cm_content completion, functionCall = None,
                             retryWithError = None, cost = Some c\<rparr>
           | Some (toolCall # _) \<Rightarrow>
               (let functionArgs = safeJsonParse parse (rtc_arguments toolCall) JNull in
                if functionArgs = JNull then
                  Inr \<lparr>textResponse = None, functionCall = None,
                       retryWithError = Some (retryMessage toolCall), cost = Some c\<rparr>
                else
                  Inr \<lparr>textResponse = None,
                       functionCall = Some \<lparr>call_id = Some (rtc_id toolCall),
                                             call_name = rtc_name toolCall,
                                             call_arguments = functionArgs\<rparr>,
                       retryWithError = None, cost = Some c\<rparr>)))"

definition tooledComplete ::
  "(string \<Rightarrow> json option) \<Rightarrow> (json \<Rightarrow> string) \<Rightarrow> (nat \<Rightarrow> string)
     \<Rightarrow> (chatRequest \<Rightarrow> error + chatResponse) \<Rightarrow> string \<Rightarrow> message list
     \<Rightarrow> functionDef list option \<Rightarrow> (json \<Rightarrow> int) \<Rightarrow> options \<Rightarrow> error + completionResult" where
  "tooledComplete parse stringify v4 create model messages functions getCostFn opts =
     (case create (completeRequest stringify v4 model messages functions opts) of
        Inl e \<Rightarrow> Inl e
      | Inr response \<Rightarrow> completionOf parse getCostFn response)"

section \<open>The provider adapters\<close>

subsection \<open>What the adapters consume\<close>

text \<open>
  A JavaScript value as far as the capability probes produce and compare them:
  \<^verbatim>\<open>true\<close>, \<^verbatim>\<open>false\<close>, \<^verbatim>\<open>undefined\<close> or a string.
\<close>

datatype jsValue = JsTrue | JsFalse | JsUndefined | JsString string

fun truthyValue :: "jsValue \<Rightarrow> bool" where
  "truthyValue JsTrue = True"
| "truthyValue JsFalse = False"
| "truthyValue JsUndefined = False"
| "truthyValue (JsString s) = (s \<noteq> [])"

text \<open>
  The collaborators of an adapter that are not part of the adapter: the builtins, the
  environment variable \<^verbatim>\<open>PROVIDER_SUPPORTS_NATIVE_TOOL_CALLING\<close> (\<open>None\<close> when unset), the
  model classes of \<^verbatim>\<open>AiProviders\<close> (\<^verbatim>\<open>loadModel\<close> and \<^verbatim>\<open>cacheContextWindows\<close> return the
  exception they throw, if any; \<^verbatim>\<open>getModelCapabilities\<close> returns the \<^verbatim>\<open>tools\<close> label of the
  capabilities or throws), the client, and the prompt based driver \<^verbatim>\<open>UnTooled\<close> of
  \<^verbatim>\<open>helpers/untooled.js\<close>, called with the callback of the adapter. All of them are
  parameters.
\<close>

record runtime =
  rt_parse :: "string \<Rightarrow> json option"
  rt_stringify :: "json \<Rightarrow> string"
  rt_v4 :: "nat \<Rightarrow> string"
  rt_native_tool_calling_env :: "string option"
  rt_loadModel :: "string \<Rightarrow> error option"
  rt_getModelCapabilities :: "string \<Rightarrow> error + jsValue"
  rt_cacheContextWindows :: "error option"
  rt_createStream :: "chatRequest \<Rightarrow> error + chunk list"
  rt_create :: "chatRequest \<Rightarrow> error + chatResponse"
  rt_UnTooled_stream ::
    "message list \<Rightarrow> functionDef list \<Rightarrow> error + (completionResult \<times> streamEvent list)"
  rt_UnTooled_complete :: "message list \<Rightarrow> functionDef list \<Rightarrow> error + completionResult"

text \<open>
  What an adapter does besides returning: the calls it makes to its collaborators and
  to the two drivers, in order.
\<close>

datatype effect =
    LoadModel
  | GetModelCapabilities
  | CacheContextWindows
  | ProviderLog string
  | CallTooledStream
  | CallTooledComplete
  | CallUnTooledStream
  | CallUnTooledComplete

text \<open>
  The fields of an adapter object: \<^verbatim>\<open>model\<close>, \<^verbatim>\<open>preloaded\<close> and the cache
  \<^verbatim>\<open>_supportsToolCalling\<close> (\<open>None\<close> is \<^verbatim>\<open>null\<close>), and the effects so far.
\<close>

record provider =
  p_model :: string
  preloaded :: bool
  supportsToolCalling :: "jsValue option"
  effects :: "effect list"

definition emit :: "effect \<Rightarrow> provider \<Rightarrow> provider" where
  "emit e p = p\<lparr>effects := effects p @ [e]\<rparr>"

text \<open>\<^verbatim>\<open>process.env.PROVIDER_SUPPORTS_NATIVE_TOOL_CALLING?.includes(name)\<close>.\<close>

definition envIncludes :: "string option \<Rightarrow> string \<Rightarrow> jsValue" where
  "envIncludes env nm =
     (case env of None \<Rightarrow> JsUndefined | Some s \<Rightarrow> if sublist nm s then JsTrue else JsFalse)"

text \<open>
  The \<^verbatim>\<open>catch\<close> block around \<^verbatim>\<open>tooledStream\<close> and \<^verbatim>\<open>tooledComplete\<close>, the same text in
  \<^verbatim>\<open>stream\<close> and \<^verbatim>\<open>complete\<close> of every adapter that calls them.
\<close>

definition rethrow :: "error \<Rightarrow> error" where
  "rethrow e =
     (if instanceof e AuthenticationError then e
      else if instanceof e RateLimitError \<or> instanceof e InternalServerError
              \<or> instanceof e OtherAPIError
        then RetryError (error_message e)
      else e)"

text \<open>\<^verbatim>\<open>getCost(_usage) { return 0; }\<close>, the same in every adapter.\<close>

definition getCost :: "json \<Rightarrow> int" where
  "getCost u = 0"

text \<open>
  One invocation of a \<^verbatim>\<open>complete\<close> method either returns (or throws) or invokes
  \<^verbatim>\<open>this.complete\<close> again with a longer history.
\<close>

datatype outcome = Return "error + completionResult" | Reinvoke "message list"

subsection \<open>\<^verbatim>\<open>LemonadeProvider\<close>\<close>

definition Lemonade_preloadModel :: "runtime \<Rightarrow> provider \<Rightarrow> error option \<times> provider" where
  "Lemonade_preloadModel rt p =
     (if preloaded p then (None, p)
      else (case rt_loadModel rt (p_model p) of
              Some e \<Rightarrow> (Some e, emit LoadModel p)
            | None \<Rightarrow> (None, (emit LoadModel p)\<lparr>preloaded := True\<rparr>)))"

text \<open>
  \<^verbatim>\<open>supportsNativeToolCalling\<close>. The construction of the \<^verbatim>\<open>LemonadeLLM\<close> object that
  precedes the test of the environment variable is taken to succeed.
\<close>

definition Lemonade_supportsNativeToolCalling :: "runtime \<Rightarrow> provider \<Rightarrow> (error + jsValue) \<times> provider" where
  "Lemonade_supportsNativeToolCalling rt p =
     (case supportsToolCalling p of
        Some v \<Rightarrow> (Inr v, p)
      | None \<Rightarrow>
          if truthyValue (envIncludes (rt_native_tool_calling_env rt) ''lemonade'') then
            (Inr JsTrue,
             (emit (ProviderLog ''Lemonade supports native tool calling is ENABLED via ENV.'') p)
               \<lparr>supportsToolCalling := Some JsTrue\<rparr>)
          else
            (case rt_getModelCapabilities rt (p_model p) of
               Inl e \<Rightarrow> (Inl e, emit GetModelCapabilities p)
             | Inr tools \<Rightarrow>
                 (let v = (if tools = JsTrue then JsTrue else JsFalse) in
                  (Inr v, (emit GetModelCapabilities p)\<lparr>supportsToolCalling := Some v\<rparr>))))"

text \<open>
  \<^verbatim>\<open>functions.length > 0 && (await this.supportsNativeToolCalling())\<close>, as the condition
  \<^verbatim>\<open>!useNative\<close> reads it; the probe is not called when there are no functions.
\<close>

definition Lemonade_useNative ::
  "runtime \<Rightarrow> provider \<Rightarrow> functionDef list \<Rightarrow> (error + bool) \<times> provider" where
  "Lemonade_useNative rt p functions =
     (if length functions > 0 then
        (case Lemonade_supportsNativeToolCalling rt p of
           (Inl e, p') \<Rightarrow> (Inl e, p')
         | (Inr v, p') \<Rightarrow> (Inr (truthyValue v), p'))
      else (Inr False, p))"

definition Lemonade_stream ::
  "runtime \<Rightarrow> provider \<Rightarrow> message list \<Rightarrow> functionDef list
     \<Rightarrow> (error + (completionResult \<times> streamEvent list)) \<times> provider" where
  "Lemonade_stream rt p messages functions =
     (case Lemonade_preloadModel rt p of
        (Some e, p1) \<Rightarrow> (Inl e, p1)
      | (None, p1) \<Rightarrow>
          (case Lemonade_useNative rt p1 functions of
             (Inl e, p2) \<Rightarrow> (Inl e, p2)
           | (Inr useNative, p2) \<Rightarrow>
               if \<not> useNative then
                 (rt_UnTooled_stream rt messages functions, emit CallUnTooledStream p2)
               else
                 (case tooledStream (rt_parse rt) (rt_stringify rt) (rt_v4 rt) (rt_createStream rt)
                         (p_model p2) messages (Some functions) \<lparr>injectReasoningContent = False\<rparr> of
                    Inl e \<Rightarrow> Inl (rethrow e)
                  | Inr r \<Rightarrow> Inr r,
                  emit CallTooledStream
                    (emit (ProviderLog ''LemonadeProvider.stream (tooled) - will process this chat completion.'')
                       p2))))"

definition Lemonade_completeOnce ::
  "runtime \<Rightarrow> provider \<Rightarrow> message list \<Rightarrow> functionDef list \<Rightarrow> outcome \<times> provider" where
  "Lemonade_completeOnce rt p messages functions =
     (case Lemonade_preloadModel rt p of
        (Some e, p1) \<Rightarrow> (Return (Inl e), p1)
      | (None, p1) \<Rightarrow>
          (case Lemonade_useNative rt p1 functions of
             (Inl e, p2) \<Rightarrow> (Return (Inl e), p2)
           | (Inr useNative, p2) \<Rightarrow>
               if \<not> useNative then
                 (Return (rt_UnTooled_complete rt messages functions), emit CallUnTooledComplete p2)
               else
                 (case tooledComplete (rt_parse rt) (rt_stringify rt) (rt_v4 rt) (rt_create rt)
                         (p_model p2) messages (Some functions) getCost
                         \<lparr>injectReasoningContent = False\<rparr> of
                    Inl e \<Rightarrow> Return (Inl (rethrow e))
                  | Inr result \<Rightarrow>
                      (case retryWithError result of
                         Some r \<Rightarrow> Reinvoke (messages @ [r])
                       | None \<Rightarrow> Return (Inr result)),
                  emit CallTooledComplete p2)))"

text \<open>
  \<^verbatim>\<open>complete\<close>: \<^verbatim>\<open>return this.complete([...messages, result.retryWithError], functions)\<close>
  is the recursive call. The function is partial: \<open>None\<close> when the recursion does not
  end.
\<close>

partial_function (option) Lemonade_complete ::
  "runtime \<Rightarrow> provider \<Rightarrow> message list \<Rightarrow> functionDef list
     \<Rightarrow> ((error + completionResult) \<times> provider) option" where
  "Lemonade_complete rt p messages functions =
     (case Lemonade_completeOnce rt p messages functions of
        (Return r, p') \<Rightarrow> Some (r, p')
      | (Reinvoke messages', p') \<Rightarrow> Lemonade_complete rt p' messages' functions)"

subsection \<open>\<^verbatim>\<open>LMStudioProvider\<close>\<close>

text \<open>
  \<^verbatim>\<open>supportsNativeToolCalling\<close>; the construction of the \<^verbatim>\<open>LMStudioLLM\<close> object is taken to
  succeed.
\<close>

definition LMStudio_supportsNativeToolCalling :: "runtime \<Rightarrow> provider \<Rightarrow> (error + jsValue) \<times> provider" where
  "LMStudio_supportsNativeToolCalling rt p =
     (case supportsToolCalling p of
        Some v \<Rightarrow> (Inr v, p)
      | None \<Rightarrow>
          (case rt_getModelCapabilities rt (p_model p) of
             Inl e \<Rightarrow> (Inl e, emit GetModelCapabilities p)
           | Inr tools \<Rightarrow>
               (let v = (if tools = JsTrue then JsTrue else JsFalse) in
                (Inr v, (emit GetModelCapabilities p)\<lparr>supportsToolCalling := Some v\<rparr>))))"

definition LMStudio_useNative ::
  "runtime \<Rightarrow> provider \<Rightarrow> functionDef list \<Rightarrow> (error + bool) \<times> provider" where
  "LMStudio_useNative rt p functions =
     (if length functions > 0 then
        (case LMStudio_supportsNativeToolCalling rt p of
           (Inl e, p') \<Rightarrow> (Inl e, p')
         | (Inr v, p') \<Rightarrow> (Inr (truthyValue v), p'))
      else (Inr False, p))"

text \<open>
  \<^verbatim>\<open>stream\<close> and one invocation of \<^verbatim>\<open>complete\<close>. \<^verbatim>\<open>LMStudioLLM.cacheContextWindows()\<close> is
  awaited inside the \<^verbatim>\<open>try\<close> block, so that what it throws reaches the \<^verbatim>\<open>catch\<close> block.
\<close>

definition LMStudio_stream ::
  "runtime \<Rightarrow> provider \<Rightarrow> message list \<Rightarrow> functionDef list
     \<Rightarrow> (error + (completionResult \<times> streamEvent list)) \<times> provider" where
  "LMStudio_stream rt p messages functions =
     (case LMStudio_useNative rt p functions of
        (Inl e, p2) \<Rightarrow> (Inl e, p2)
      | (Inr useNative, p2) \<Rightarrow>
          if \<not> useNative then
            (rt_UnTooled_stream rt messages functions, emit CallUnTooledStream p2)
          else
            (let p3 = emit CacheContextWindows
                        (emit (ProviderLog ''Provider.stream (tooled) - will process this chat completion.'') p2)
             in case rt_cacheContextWindows rt of
                  Some e \<Rightarrow> (Inl (rethrow e), p3)
                | None \<Rightarrow>
                    (case tooledStream (rt_parse rt) (rt_stringify rt) (rt_v4 rt) (rt_createStream rt)
                            (p_model p3) messages (Some functions) \<lparr>injectReasoningContent = False\<rparr> of
                       Inl e \<Rightarrow> Inl (rethrow e)
                     | Inr r \<Rightarrow> Inr r,
                     emit CallTooledStream p3)))"

definition LMStudio_completeOnce ::
  "runtime \<Rightarrow> provider \<Rightarrow> message list \<Rightarrow> functionDef list \<Rightarrow> outcome \<times> provider" where
  "LMStudio_completeOnce rt p messages functions =
     (case LMStudio_useNative rt p functions of
        (Inl e, p2) \<Rightarrow> (Return (Inl e), p2)
      | (Inr useNative, p2) \<Rightarrow>
          if \<not> useNative then
            (Return (rt_UnTooled_complete rt messages functions), emit CallUnTooledComplete p2)
          else
            (let p3 = emit CacheContextWindows p2
             in case rt_cacheContextWindows rt of
                  Some e \<Rightarrow> (Return (Inl (rethrow e)), p3)
                | None \<Rightarrow>
                    (case tooledComplete (rt_parse rt) (rt_stringify rt) (rt_v4 rt) (rt_create rt)
                            (p_model p3) messages (Some functions) getCost
                            \<lparr>injectReasoningContent = False\<rparr> of
                       Inl e \<Rightarrow> Return (Inl (rethrow e))
                     | Inr result \<Rightarrow>
                         (case retryWithError result of
                            Some r \<Rightarrow> Reinvoke (messages @ [r])
                          | None \<Rightarrow> Return (Inr result)),
                     emit CallTooledComplete p3)))"


subsection \<open>\<^verbatim>\<open>DockerModelRunnerProvider\<close>\<close>

text \<open>
  \<^verbatim>\<open>supportsNativeToolCalling\<close>; the construction of the \<^verbatim>\<open>DockerModelRunnerLLM\<close> object is
  taken to succeed.
\<close>

definition DockerModelRunner_supportsNativeToolCalling ::
  "runtime \<Rightarrow> provider \<Rightarrow> (error + jsValue) \<times> provider" where
  "DockerModelRunner_supportsNativeToolCalling rt p =
     (case supportsToolCalling p of
        Some v \<Rightarrow> (Inr v, p)
      | None \<Rightarrow>
          (case rt_getModelCapabilities rt (p_model p) of
             Inl e \<Rightarrow> (Inl e, emit GetModelCapabilities p)
           | Inr tools \<Rightarrow>
               (let v = (if tools = JsTrue then JsTrue else JsFalse) in
                (Inr v, (emit GetModelCapabilities p)\<lparr>supportsToolCalling := Some v\<rparr>))))"

definition DockerModelRunner_useNative ::
  "runtime \<Rightarrow> provider \<Rightarrow> functionDef list \<Rightarrow> (error + bool) \<times> provider" where
  "DockerModelRunner_useNative rt p functions =
     (if length functions > 0 then
        (case DockerModelRunner_supportsNativeToolCalling rt p of
           (Inl e, p') \<Rightarrow> (Inl e, p')
         | (Inr v, p') \<Rightarrow> (Inr (truthyValue v), p'))
      else (Inr False, p))"

definition DockerModelRunner_stream ::
  "runtime \<Rightarrow> provider \<Rightarrow> message list \<Rightarrow> functionDef list
     \<Rightarrow> (error + (completionResult \<times> streamEvent list)) \<times> provider" where
  "DockerModelRunner_stream rt p messages functions =
     (case DockerModelRunner_useNative rt p functions of
        (Inl e, p2) \<Rightarrow> (Inl e, p2)
      | (Inr useNative, p2) \<Rightarrow>
          if \<not> useNative then
            (rt_UnTooled_stream rt messages functions, emit CallUnTooledStream p2)
          else
            (case tooledStream (rt_parse rt) (rt_stringify rt) (rt_v4 rt) (rt_createStream rt)
                    (p_model p2) messages (Some functions) \<lparr>injectReasoningContent = False\<rparr> of
               Inl e \<Rightarrow> Inl (rethrow e)
             | Inr r \<Rightarrow> Inr r,
             emit CallTooledStream
               (emit (ProviderLog ''Provider.stream (tooled) - will process this chat completion.'') p2)))"

definition DockerModelRunner_completeOnce ::
  "runtime \<Rightarrow> provider \<Rightarrow> message list \<Rightarrow> functionDef list \<Rightarrow> outcome \<times> provider" where
  "DockerModelRunner_completeOnce rt p messages functions =
     (case DockerModelRunner_useNative rt p functions of
        (Inl e, p2) \<Rightarrow> (Return (Inl e), p2)
      | (Inr useNative, p2) \<Rightarrow>
          if \<not> useNative then
            (Return (rt_UnTooled_complete rt messages functions), emit CallUnTooledComplete p2)
          else
            (case tooledComplete (rt_parse rt) (rt_stringify rt) (rt_v4 rt) (rt_create rt)
                    (p_model p2) messages (Some functions) getCost
                    \<lparr>injectReasoningContent = False\<rparr> of
               Inl e \<Rightarrow> Return (Inl (rethrow e))
             | Inr result \<Rightarrow>
                 (case retryWithError result of
                    Some r \<Rightarrow> Reinvoke (messages @ [r])
                  | None \<Rightarrow> Return (Inr result)),
             emit CallTooledComplete p2))"


subsection \<open>\<^verbatim>\<open>LocalAiProvider\<close>\<close>

text \<open>
  The probe is synchronous and reads the environment variable only. What it caches and
  returns is what \<^verbatim>\<open>includes\<close> returned, or \<^verbatim>\<open>undefined\<close> when the variable is not set.
\<close>

definition LocalAi_supportsNativeToolCalling :: "runtime \<Rightarrow> provider \<Rightarrow> jsValue \<times> provider" where
  "LocalAi_supportsNativeToolCalling rt p =
     (case supportsToolCalling p of
        Some v \<Rightarrow> (v, p)
      | None \<Rightarrow>
          (let supports = envIncludes (rt_native_tool_calling_env rt) ''localai'' in
           (supports,
            (emit (ProviderLog
                     (if truthyValue supports
                      then ''LocalAI supports native tool calling is ENABLED via ENV.''
                      else ''LocalAI supports native tool calling is DISABLED via ENV. Will use UnTooled instead.''))
               p)\<lparr>supportsToolCalling := Some supports\<rparr>)))"

definition LocalAi_useNative :: "runtime \<Rightarrow> provider \<Rightarrow> functionDef list \<Rightarrow> bool \<times> provider" where
  "LocalAi_useNative rt p functions =
     (if length functions > 0 then
        (case LocalAi_supportsNativeToolCalling rt p of (v, p') \<Rightarrow> (truthyValue v, p'))
      else (False, p))"

definition LocalAi_stream ::
  "runtime \<Rightarrow> provider \<Rightarrow> message list \<Rightarrow> functionDef list
     \<Rightarrow> (error + (completionResult \<times> streamEvent list)) \<times> provider" where
  "LocalAi_stream rt p messages functions =
     (case LocalAi_useNative rt p functions of
        (useNative, p2) \<Rightarrow>
          if \<not> useNative then
            (rt_UnTooled_stream rt messages functions, emit CallUnTooledStream p2)
          else
            (case tooledStream (rt_parse rt) (rt_stringify rt) (rt_v4 rt) (rt_createStream rt)
                    (p_model p2) messages (Some functions) \<lparr>injectReasoningContent = False\<rparr> of
               Inl e \<Rightarrow> Inl (rethrow e)
             | Inr r \<Rightarrow> Inr r,
             emit CallTooledStream
               (emit (ProviderLog ''Provider.stream (tooled) - will process this chat completion.'') p2)))"

definition LocalAi_completeOnce ::
  "runtime \<Rightarrow> provider \<Rightarrow> message list \<Rightarrow> functionDef list \<Rightarrow> outcome \<times> provider" where
  "LocalAi_completeOnce rt p messages functions =
     (case LocalAi_useNative rt p functions of
        (useNative, p2) \<Rightarrow>
          if \<not> useNative then
            (Return (rt_UnTooled_complete rt messages functions), emit CallUnTooledComplete p2)
          else
            (case tooledComplete (rt_parse rt) (rt_stringify rt) (rt_v4 rt) (rt_create rt)
                    (p_model p2) messages (Some functions) getCost
                    \<lparr>injectReasoningContent = False\<rparr> of
               Inl e \<Rightarrow> Return (Inl (rethrow e))
             | Inr result \<Rightarrow>
                 (case retryWithError result of
                    Some r \<Rightarrow> Reinvoke (messages @ [r])
                  | None \<Rightarrow> Return (Inr result)),
             emit CallTooledComplete p2))"


subsection \<open>\<^verbatim>\<open>GenericOpenAiProvider\<close>\<close>

definition GenericOpenAi_supportsNativeToolCalling :: "runtime \<Rightarrow> provider \<Rightarrow> jsValue \<times> provider" where
  "GenericOpenAi_supportsNativeToolCalling rt p =
     (case supportsToolCalling p of
        Some v \<Rightarrow> (v, p)
      | None \<Rightarrow>
          (let supports = envIncludes (rt_native_tool_calling_env rt) ''generic-openai'' in
           (supports,
            (emit (ProviderLog
                     (if truthyValue supports
                      then ''Generic OpenAI supports native tool calling is ENABLED via ENV.''
                      else ''Generic OpenAI supports native tool calling is DISABLED via ENV. Will use UnTooled instead.''))
               p)\<lparr>supportsToolCalling := Some supports\<rparr>)))"

definition GenericOpenAi_useNative :: "runtime \<Rightarrow> provider \<Rightarrow> functionDef list \<Rightarrow> bool \<times> provider" where
  "GenericOpenAi_useNative rt p functions =
     (if length functions > 0 then
        (case GenericOpenAi_supportsNativeToolCalling rt p of (v, p') \<Rightarrow> (truthyValue v, p'))
      else (False, p))"

definition GenericOpenAi_stream ::
  "runtime \<Rightarrow> provider \<Rightarrow> message list \<Rightarrow> functionDef list
     \<Rightarrow> (error + (completionResult \<times> streamEvent list)) \<times> provider" where
  "GenericOpenAi_stream rt p messages functions =
     (case GenericOpenAi_useNative rt p functions of
        (useNative, p2) \<Rightarrow>
          if \<not> useNative then
            (rt_UnTooled_stream rt messages functions, emit CallUnTooledStream p2)
          else
            (case tooledStream (rt_parse rt) (rt_stringify rt) (rt_v4 rt) (rt_createStream rt)
                    (p_model p2) messages (Some functions) \<lparr>injectReasoningContent = False\<rparr> of
               Inl e \<Rightarrow> Inl (rethrow e)
             | Inr r \<Rightarrow> Inr r,
             emit CallTooledStream
               (emit (ProviderLog ''Provider.stream (tooled) - will process this chat completion.'') p2)))"

definition GenericOpenAi_completeOnce ::
  "runtime \<Rightarrow> provider \<Rightarrow> message list \<Rightarrow> functionDef list \<Rightarrow> outcome \<times> provider" where
  "GenericOpenAi_completeOnce rt p messages functions =
     (case GenericOpenAi_useNative rt p functions of
        (useNative, p2) \<Rightarrow>
          if \<not> useNative then
            (Return (rt_UnTooled_complete rt messages functions), emit CallUnTooledComplete p2)
          else
            (case tooledComplete (rt_parse rt) (rt_stringify rt) (rt_v4 rt) (rt_create rt)
                    (p_model p2) messages (Some functions) getCost
                    \<lparr>injectReasoningContent = False\<rparr> of
               Inl e \<Rightarrow> Return (Inl (rethrow e))
             | Inr result \<Rightarrow>
                 (case retryWithError result of
                    Some r \<Rightarrow> Reinvoke (messages @ [r])
                  | None \<Rightarrow> Return (Inr result)),
             emit CallTooledComplete p2))"


subsection \<open>\<^verbatim>\<open>DeepSeekProvider\<close>\<close>

text \<open>
  \<^verbatim>\<open>supportsNativeToolCalling\<close> returns \<^verbatim>\<open>true\<close>. \<^verbatim>\<open>#tooledOptions\<close> sets
  \<^verbatim>\<open>injectReasoningContent\<close> for the model \<^verbatim>\<open>deepseek-reasoner\<close> and is empty otherwise.
\<close>

definition DeepSeek_supportsNativeToolCalling :: jsValue where
  "DeepSeek_supportsNativeToolCalling = JsTrue"

definition DeepSeek_tooledOptions :: "provider \<Rightarrow> options" where
  "DeepSeek_tooledOptions p = \<lparr>injectReasoningContent = (p_model p = ''deepseek-reasoner'')\<rparr>"

definition DeepSeek_useNative :: "functionDef list \<Rightarrow> bool" where
  "DeepSeek_useNative functions = (length functions > 0 \<and> truthyValue DeepSeek_supportsNativeToolCalling)"

definition DeepSeek_stream ::
  "runtime \<Rightarrow> provider \<Rightarrow> message list \<Rightarrow> functionDef list
     \<Rightarrow> (error + (completionResult \<times> streamEvent list)) \<times> provider" where
  "DeepSeek_stream rt p messages functions =
     (if \<not> DeepSeek_useNative functions then
        (rt_UnTooled_stream rt messages functions, emit CallUnTooledStream p)
      else
        (case tooledStream (rt_parse rt) (rt_stringify rt) (rt_v4 rt) (rt_createStream rt)
                (p_model p) messages (Some functions) (DeepSeek_tooledOptions p) of
           Inl e \<Rightarrow> Inl (rethrow e)
         | Inr r \<Rightarrow> Inr r,
         emit CallTooledStream
           (emit (ProviderLog ''Provider.stream (tooled) - will process this chat completion.'') p)))"

definition DeepSeek_completeOnce ::
  "runtime \<Rightarrow> provider \<Rightarrow> message list \<Rightarrow> functionDef list \<Rightarrow> outcome \<times> provider" where
  "DeepSeek_completeOnce rt p messages functions =
     (if \<not> DeepSeek_useNative functions then
        (Return (rt_UnTooled_complete rt messages functions), emit CallUnTooledComplete p)
      else
        (case tooledComplete (rt_parse rt) (rt_stringify rt) (rt_v4 rt) (rt_create rt)
                (p_model p) messages (Some functions) getCost (DeepSeek_tooledOptions p) of
           Inl e \<Rightarrow> Return (Inl (rethrow e))
         | Inr result \<Rightarrow>
             (case retryWithError result of
                Some r \<Rightarrow> Reinvoke (messages @ [r])
              | None \<Rightarrow> Return (Inr result)),
         emit CallTooledComplete p))"


subsection \<open>\<^verbatim>\<open>OpenRouterProvider\<close>\<close>

definition OpenRouter_supportsNativeToolCalling :: "runtime \<Rightarrow> provider \<Rightarrow> jsValue \<times> provider" where
  "OpenRouter_supportsNativeToolCalling rt p =
     (case supportsToolCalling p of
        Some v \<Rightarrow> (v, p)
      | None \<Rightarrow>
          (let supports = envIncludes (rt_native_tool_calling_env rt) ''openrouter'' in
           (supports,
            (emit (ProviderLog
                     (if truthyValue supports
                      then ''OpenRouter supports native tool calling is ENABLED via ENV.''
                      else ''OpenRouter supports native tool calling is DISABLED via ENV. Will use UnTooled instead.''))
               p)\<lparr>supportsToolCalling := Some supports\<rparr>)))"

definition OpenRouter_useNative :: "runtime \<Rightarrow> provider \<Rightarrow> functionDef list \<Rightarrow> bool \<times> provider" where
  "OpenRouter_useNative rt p functions =
     (if length functions > 0 then
        (case OpenRouter_supportsNativeToolCalling rt p of (v, p') \<Rightarrow> (truthyValue v, p'))
      else (False, p))"

definition OpenRouter_stream ::
  "runtime \<Rightarrow> provider \<Rightarrow> message list \<Rightarrow> functionDef list
     \<Rightarrow> (error + (completionResult \<times> streamEvent list)) \<times> provider" where
  "OpenRouter_stream rt p messages functions =
     (case OpenRouter_useNative rt p functions of
        (useNative, p2) \<Rightarrow>
          if \<not> useNative then
            (rt_UnTooled_stream rt messages functions, emit CallUnTooledStream p2)
          else
            (case tooledStream (rt_parse rt) (rt_stringify rt) (rt_v4 rt) (rt_createStream rt)
                    (p_model p2) messages (Some functions) \<lparr>injectReasoningContent = False\<rparr> of
               Inl e \<Rightarrow> Inl (rethrow e)
             | Inr r \<Rightarrow> Inr r,
             emit CallTooledStream
               (emit (ProviderLog ''Provider.stream (tooled) - will process this chat completion.'') p2)))"

definition OpenRouter_completeOnce ::
  "runtime \<Rightarrow> provider \<Rightarrow> message list \<Rightarrow> functionDef list \<Rightarrow> outcome \<times> provider" where
  "OpenRouter_completeOnce rt p messages functions =
     (case OpenRouter_useNative rt p functions of
        (useNative, p2) \<Rightarrow>
          if \<not> useNative then
            (Return (rt_UnTooled_complete rt messages functions), emit CallUnTooledComplete p2)
          else
            (case tooledComplete (rt_parse rt) (rt_stringify rt) (rt_v4 rt) (rt_create rt)
                    (p_model p2) messages (Some functions) getCost
                    \<lparr>injectReasoningContent = False\<rparr> of
               Inl e \<Rightarrow> Return (Inl (rethrow e))
             | Inr result \<Rightarrow>
                 (case retryWithError result of
                    Some r \<Rightarrow> Reinvoke (messages @ [r])
                  | None \<Rightarrow> Return (Inr result)),
             emit CallTooledComplete p2))"


subsection \<open>\<^verbatim>\<open>AzureOpenAiProvider\<close>\<close>

text \<open>The adapter extends \<^verbatim>\<open>Provider\<close> alone: it has no probe and no prompt based driver.\<close>

definition Azure_stream ::
  "runtime \<Rightarrow> provider \<Rightarrow> message list \<Rightarrow> functionDef list
     \<Rightarrow> (error + (completionResult \<times> streamEvent list)) \<times> provider" where
  "Azure_stream rt p messages functions =
     (case tooledStream (rt_parse rt) (rt_stringify rt) (rt_v4 rt) (rt_createStream rt)
             (p_model p) messages (Some functions) \<lparr>injectReasoningContent = False\<rparr> of
        Inl e \<Rightarrow> Inl (rethrow e)
      | Inr r \<Rightarrow> Inr r,
      emit CallTooledStream
        (emit (ProviderLog ''Provider.stream - will process this chat completion.'') p))"



subsection \<open>\<^verbatim>\<open>OllamaProvider\<close>\<close>











































section \<open>Auxiliary notions used in the statements\<close>

text \<open>
  The tool call fragments of a stream in arrival order: the \<^verbatim>\<open>delta.tool_calls\<close>
  entries of the chunks that have a first choice, concatenated.
\<close>

definition toolCallDeltas :: "chunk list \<Rightarrow> toolCallDelta list" where
  "toolCallDeltas chunks =
     concat (map (\<lambda>ch. case ch of None \<Rightarrow> []
                        | Some d \<Rightarrow> (case delta_tool_calls d of None \<Rightarrow> [] | Some tcs \<Rightarrow> tcs)) chunks)"

text \<open>A chunk that carries one tool call fragment and no text.\<close>

definition toolCallChunk :: "toolCallDelta \<Rightarrow> chunk" where
  "toolCallChunk tc = Some \<lparr>delta_content = None, delta_tool_calls = Some [tc]\<rparr>"

text \<open>Inputs of the examples: a user message, a tool definition, the default options.\<close>

definition userHi :: message where
  "userHi = \<lparr>role = ''user'', content = Text ''hi'', name = None, originalFunctionCall = None,
             reasoning_content = None, tool_calls = None, tool_call_id = None\<rparr>"

definition searchFn :: functionDef where
  "searchFn = \<lparr>fn_name = ''search'', fn_description = ''Search the web'',
               fn_parameters = JObject [(''type'', JString ''object'')]\<rparr>"

definition noOptions :: options where
  "noOptions = \<lparr>injectReasoningContent = False\<rparr>"

text \<open>
  A backend that rejects every request with a \<^verbatim>\<open>tools\<close> field and otherwise answers
  with text.
\<close>

definition textOnlyBackend :: "chatRequest \<Rightarrow> error + chatResponse" where
  "textOnlyBackend req =
     (if req_tools req = None
      then Inr \<lparr>choices = [\<lparr>cm_content = Some ''provider text'', cm_tool_calls = None\<rparr>],
                usage = JNull\<rparr>
      else Inl (OpenAIError OtherAPIError ''tools must not be sent''))"


text \<open>A response with one choice: its text and its tool calls.\<close>

definition toolCallResponse :: "string option \<Rightarrow> responseToolCall list \<Rightarrow> chatResponse" where
  "toolCallResponse txt tcs = \<lparr>choices = [\<lparr>cm_content = txt, cm_tool_calls = Some tcs\<rparr>], usage = JNull\<rparr>"


text \<open>
  A new adapter object, and a runtime built from a client, the environment variable
  and the capability label; models load, the context windows are cached and the prompt
  based driver answers with a fixed text.
\<close>

definition newProvider :: provider where
  "newProvider = \<lparr>p_model = ''model'', preloaded = False, supportsToolCalling = None, effects = []\<rparr>"

definition untooledAnswer :: completionResult where
  "untooledAnswer = \<lparr>textResponse = Some ''untooled'', functionCall = None, retryWithError = None, cost = Some 0\<rparr>"

definition exampleRuntime ::
  "(chatRequest \<Rightarrow> error + chunk list) \<Rightarrow> (chatRequest \<Rightarrow> error + chatResponse) \<Rightarrow> string option
     \<Rightarrow> jsValue \<Rightarrow> runtime" where
  "exampleRuntime cs c env tools =
     \<lparr>rt_parse = JSON_parse, rt_stringify = JSON_stringify, rt_v4 = uuidSupply,
      rt_native_tool_calling_env = env, rt_loadModel = (\<lambda>m. None),
      rt_getModelCapabilities = (\<lambda>m. Inr tools), rt_cacheContextWindows = None,
      rt_createStream = cs, rt_create = c,
      rt_UnTooled_stream = (\<lambda>msgs fns. Inr (untooledAnswer, [])),
      rt_UnTooled_complete = (\<lambda>msgs fns. Inr untooledAnswer)\<rparr>"

text \<open>
  Two backends: one answers with unparsable tool call arguments as long as the request
  has fewer than \<open>n\<close> messages and with arguments that parse afterwards, the other
  answers with unparsable arguments always.
\<close>

definition malformedUntil :: "nat \<Rightarrow> chatRequest \<Rightarrow> error + chatResponse" where
  \<open>malformedUntil n req =
     (if length (req_messages req) < n
      then Inr (toolCallResponse None [\<lparr>rtc_id = ''c1'', rtc_name = ''search'', rtc_arguments = ''oops''\<rparr>])
      else Inr (toolCallResponse None [\<lparr>rtc_id = ''c1'', rtc_name = ''search'', rtc_arguments = ''{"q":"cats"}''\<rparr>]))\<close>

definition alwaysMalformed :: "chatRequest \<Rightarrow> error + chatResponse" where
  "alwaysMalformed req =
     Inr (toolCallResponse None [\<lparr>rtc_id = ''c1'', rtc_name = ''search'', rtc_arguments = ''oops''\<rparr>])"

text \<open>
  The first \<open>n\<close> invocations of \<^verbatim>\<open>LemonadeProvider.complete\<close>: the unfolding of
  \<open>Lemonade_complete\<close> that can be evaluated.
\<close>

fun Lemonade_complete_fuel ::
  "nat \<Rightarrow> runtime \<Rightarrow> provider \<Rightarrow> message list \<Rightarrow> functionDef list
     \<Rightarrow> ((error + completionResult) \<times> provider) option" where
  "Lemonade_complete_fuel 0 rt p messages functions = None"
| "Lemonade_complete_fuel (Suc n) rt p messages functions =
     (case Lemonade_completeOnce rt p messages functions of
        (Return r, p') \<Rightarrow> Some (r, p')
      | (Reinvoke messages', p') \<Rightarrow> Lemonade_complete_fuel n rt p' messages' functions)"



text \<open>
  Notions for the adapters. The calls \<^verbatim>\<open>tooledStream(this.client, this.model, messages,
  functions, eventHandler, options)\<close> and \<^verbatim>\<open>tooledComplete(this.client, this.model,
  messages, functions, this.getCost.bind(this), options)\<close> of an adapter in a runtime.
  What an invocation of \<^verbatim>\<open>stream\<close> makes of the outcome of the first and an invocation of
  \<^verbatim>\<open>complete\<close> of the outcome of the second. The effects of a call: those of the state after
  it that the state before it does not have.
\<close>

definition callTooledStream ::
  "runtime \<Rightarrow> provider \<Rightarrow> message list \<Rightarrow> functionDef list \<Rightarrow> options
     \<Rightarrow> error + (completionResult \<times> streamEvent list)" where
  "callTooledStream rt p messages functions opts =
     tooledStream (rt_parse rt) (rt_stringify rt) (rt_v4 rt) (rt_createStream rt) (p_model p)
       messages (Some functions) opts"

definition callTooledComplete ::
  "runtime \<Rightarrow> provider \<Rightarrow> message list \<Rightarrow> functionDef list \<Rightarrow> options \<Rightarrow> error + completionResult" where
  "callTooledComplete rt p messages functions opts =
     tooledComplete (rt_parse rt) (rt_stringify rt) (rt_v4 rt) (rt_create rt) (p_model p)
       messages (Some functions) getCost opts"

definition streamOutcome ::
  "error + (completionResult \<times> streamEvent list) \<Rightarrow> error + (completionResult \<times> streamEvent list)" where
  "streamOutcome r = (case r of Inl e \<Rightarrow> Inl (rethrow e) | Inr x \<Rightarrow> Inr x)"

definition completeOutcome :: "message list \<Rightarrow> error + completionResult \<Rightarrow> outcome" where
  "completeOutcome messages r =
     (case r of
        Inl e \<Rightarrow> Return (Inl (rethrow e))
      | Inr result \<Rightarrow>
          (case retryWithError result of
             Some m \<Rightarrow> Reinvoke (messages @ [m])
           | None \<Rightarrow> Return (Inr result)))"

definition newEffects :: "provider \<Rightarrow> provider \<Rightarrow> effect list" where
  "newEffects p p' = drop (length (effects p)) (effects p')"

text \<open>
  The choice as the text states it. An invocation that returned \<open>result\<close> and left the
  adapter in the state \<open>p'\<close> took the native path when \<open>useNative\<close> holds: it called the
  native driver, did not call the prompt based driver, and returned what the adapter
  makes of the outcome of the native driver. Otherwise it took the prompt based path:
  it called the prompt based driver, not the native one, and returned what that
  returned.
\<close>

definition chooses ::
  "bool \<Rightarrow> effect \<Rightarrow> effect \<Rightarrow> 'r \<Rightarrow> 'r \<Rightarrow> provider \<Rightarrow> 'r \<times> provider \<Rightarrow> bool" where
  "chooses useNative native untooled nativeResult untooledResult p out =
     (case out of
        (result, p') \<Rightarrow>
          if useNative
          then native \<in> set (newEffects p p') \<and> untooled \<notin> set (newEffects p p')
               \<and> result = nativeResult
          else untooled \<in> set (newEffects p p') \<and> native \<notin> set (newEffects p p')
               \<and> result = untooledResult)"

text \<open>
  The choice of an invocation of \<^verbatim>\<open>stream\<close> and of an invocation of \<^verbatim>\<open>complete\<close> between
  \<^verbatim>\<open>tooledStream\<close> or \<^verbatim>\<open>tooledComplete\<close>, called with the options \<open>opts\<close>, and the prompt based
  driver.
\<close>

definition streamChoice ::
  "bool \<Rightarrow> runtime \<Rightarrow> provider \<Rightarrow> message list \<Rightarrow> functionDef list \<Rightarrow> options
     \<Rightarrow> (error + (completionResult \<times> streamEvent list)) \<times> provider \<Rightarrow> bool" where
  "streamChoice useNative rt p messages functions opts out =
     chooses useNative CallTooledStream CallUnTooledStream
       (streamOutcome (callTooledStream rt p messages functions opts))
       (rt_UnTooled_stream rt messages functions) p out"

definition completeChoice ::
  "bool \<Rightarrow> runtime \<Rightarrow> provider \<Rightarrow> message list \<Rightarrow> functionDef list \<Rightarrow> options
     \<Rightarrow> outcome \<times> provider \<Rightarrow> bool" where
  "completeChoice useNative rt p messages functions opts out =
     chooses useNative CallTooledComplete CallUnTooledComplete
       (completeOutcome messages (callTooledComplete rt p messages functions opts))
       (Return (rt_UnTooled_complete rt messages functions)) p out"



text \<open>
  Notions for the history: the identifier of a \<^verbatim>\<open>function\<close> message when
  \<^verbatim>\<open>originalFunctionCall?.id\<close> is truthy; the number of messages of a history for which an
  identifier is drawn from \<^verbatim>\<open>v4()\<close>; an assistant message that carries a tool call with a
  given identifier; a tool result that refers to it; an assistant message that carries
  tool calls at all.
\<close>

definition functionCallId :: "message \<Rightarrow> string option" where
  "functionCallId m =
     (if role m = ''function'' then
        (case originalFunctionCall m of
           None \<Rightarrow> None
         | Some ofc \<Rightarrow> (case ofc_id ofc of None \<Rightarrow> None | Some i \<Rightarrow> if i = [] then None else Some i))
      else None)"

definition freshIds :: "message list \<Rightarrow> nat" where
  "freshIds ms = length (filter (\<lambda>m. role m = ''function'' \<and> functionCallId m = None) ms)"

definition carriesCall :: "string \<Rightarrow> message \<Rightarrow> bool" where
  "carriesCall i m =
     (role m = ''assistant'' \<and>
      (case tool_calls m of None \<Rightarrow> False | Some tcs \<Rightarrow> i \<in> set (map tcw_id tcs)))"

definition resultFor :: "string \<Rightarrow> message \<Rightarrow> bool" where
  "resultFor i m = (role m = ''tool'' \<and> tool_call_id m = Some i)"

definition hasToolCalls :: "message \<Rightarrow> bool" where
  "hasToolCalls m = (role m = ''assistant'' \<and> tool_calls m \<noteq> None)"

text \<open>
  Where a message stands: \<open>pre\<close> is the history before it. The message just before is
  an assistant message that carries a call with the identifier \<open>i\<close>; or it is an
  assistant message with tool calls none of which has the identifier.
\<close>

definition afterCall :: "string \<Rightarrow> message list \<Rightarrow> bool" where
  "afterCall i pre = (pre \<noteq> [] \<and> carriesCall i (last pre))"

definition afterForeignCall :: "string \<Rightarrow> message list \<Rightarrow> bool" where
  "afterForeignCall i pre = (pre \<noteq> [] \<and> hasToolCalls (last pre) \<and> \<not> carriesCall i (last pre))"

text \<open>
  What one iteration of the loop appends for a message, and what the loop appends for
  a history: \<open>n\<close> is the number of identifiers drawn before, and \<open>synth\<close> tells whether
  the last formatted message leaves the assistant message of a \<^verbatim>\<open>function\<close> message with
  an identifier to be built. The number of assistant messages built for the identifier
  \<open>i\<close> on the way.
\<close>

definition expansion ::
  "(json \<Rightarrow> string) \<Rightarrow> (nat \<Rightarrow> string) \<Rightarrow> options \<Rightarrow> nat \<Rightarrow> bool \<Rightarrow> message \<Rightarrow> message list" where
  "expansion stringify v4 opts n synth msg =
     (if role msg = ''function'' then
        (case functionCallId msg of
           Some i \<Rightarrow>
             (if synth then
                [assistantCallMessage opts i
                   (case originalFunctionCall msg of None \<Rightarrow> None | Some ofc \<Rightarrow> Some (ofc_name ofc))
                   (case originalFunctionCall msg of None \<Rightarrow> [] | Some ofc \<Rightarrow>
                      stringOrStringify stringify (ofc_arguments ofc))]
              else [])
             @ [toolResultMessage stringify i (content msg)]
         | None \<Rightarrow>
             [assistantCallMessage opts (''call_'' @ v4 n) (name msg) ''{}'',
              toolResultMessage stringify (''call_'' @ v4 n) (content msg)])
      else if injectReasoningContent opts \<and> role msg = ''assistant'' \<and> reasoning_content msg = None
        then [msg\<lparr>reasoning_content := Some []\<rparr>]
      else [msg])"

fun expandAll ::
  "(json \<Rightarrow> string) \<Rightarrow> (nat \<Rightarrow> string) \<Rightarrow> options \<Rightarrow> nat \<Rightarrow> bool \<Rightarrow> message list
     \<Rightarrow> message list" where
  "expandAll stringify v4 opts n synth [] = []"
| "expandAll stringify v4 opts n synth (msg # rest) =
     expansion stringify v4 opts n synth msg @
     expandAll stringify v4 opts (n + freshIds [msg]) (\<not> hasToolCalls msg) rest"

fun synthesized :: "string \<Rightarrow> bool \<Rightarrow> message list \<Rightarrow> nat" where
  "synthesized i synth [] = 0"
| "synthesized i synth (msg # rest) =
     (if functionCallId msg = Some i \<and> synth then 1 else 0) + synthesized i (\<not> hasToolCalls msg) rest"

text \<open>
  Messages of the examples: the result of a tool call made natively, an assistant
  answer, an assistant message that already carries another tool call, and one that
  carries the call of the result.
\<close>

definition searchResult :: message where
  "searchResult =
     \<lparr>role = ''function'', content = Text ''3 results'', name = Some ''search'',
      originalFunctionCall = Some \<lparr>ofc_id = Some ''c1'', ofc_name = ''search'',
                                    ofc_arguments = Structured (JObject [(''q'', JString ''cats'')])\<rparr>,
      reasoning_content = None, tool_calls = None, tool_call_id = None\<rparr>"

definition assistantDone :: message where
  "assistantDone =
     \<lparr>role = ''assistant'', content = Text ''Here you go'', name = None,
      originalFunctionCall = None, reasoning_content = None, tool_calls = None,
      tool_call_id = None\<rparr>"

definition assistantWithCall :: message where
  "assistantWithCall =
     \<lparr>role = ''assistant'', content = Structured JNull, name = None,
      originalFunctionCall = None, reasoning_content = None,
      tool_calls = Some [\<lparr>tcw_id = ''c0'', tcw_type = ''function'', tcw_name = Some ''lookup'',
                          tcw_arguments = ''{}''\<rparr>],
      tool_call_id = None\<rparr>"

definition assistantSearches :: message where
  \<open>assistantSearches =
     \<lparr>role = ''assistant'', content = Structured JNull, name = None,
      originalFunctionCall = None, reasoning_content = None,
      tool_calls = Some [\<lparr>tcw_id = ''c1'', tcw_type = ''function'', tcw_name = Some ''search'',
                          tcw_arguments = ''{"q":"cats"}''\<rparr>],
      tool_call_id = None\<rparr>\<close>




















section \<open>The streaming driver\<close>

lemma lowest_index_present:
  assumes "map_of tbl i = Some a" and "\<forall>k \<in> set (map fst tbl). i \<le> k"
  shows "Min (set (map fst tbl)) = i"
proof (rule Min_eqI)
  show "finite (set (map fst tbl))" by simp
  show "\<And>y. y \<in> set (map fst tbl) \<Longrightarrow> i \<le> y" using assms(2) by blast
  from assms(1) have "(i, a) \<in> set tbl" by (rule map_of_SomeD)
  then show "i \<in> set (map fst tbl)" by force
qed

lemma firstFunctionCall_lowest:
  assumes "map_of tbl i = Some a" and "\<forall>k \<in> set (map fst tbl). i \<le> k"
  shows "firstFunctionCall parse tbl =
           Some \<lparr>call_id = Some (acc_id a), call_name = acc_name a,
                 call_arguments = (case parse (acc_arguments a) of None \<Rightarrow> JObject [] | Some v \<Rightarrow> v)\<rparr>"
proof -
  have m: "Min (set (map fst tbl)) = i" using assms by (rule lowest_index_present)
  from assms(1) have "tbl \<noteq> []" by auto
  then show ?thesis
    using assms(1) m by (simp add: firstFunctionCall_def safeJsonParse_def)
qed

lemma mergeToolCall_table:
  "st_toolCallsByIndex (mergeToolCall u tc st) = assembleToolCall tc (st_toolCallsByIndex st)"
  by (simp add: mergeToolCall_def Let_def)

lemma fold_mergeToolCall_table:
  "st_toolCallsByIndex (fold (mergeToolCall u) tcs st) = fold assembleToolCall tcs (st_toolCallsByIndex st)"
  by (induction tcs arbitrary: st) (simp_all add: mergeToolCall_table)

lemma processChunk_table:
  "st_toolCallsByIndex (processChunk u ch st) =
     fold assembleToolCall (toolCallDeltas [ch]) (st_toolCallsByIndex st)"
  by (simp add: processChunk_def toolCallDeltas_def Let_def fold_mergeToolCall_table
           split: option.splits)

lemma toolCallDeltas_Cons:
  "toolCallDeltas (ch # chunks) = toolCallDeltas [ch] @ toolCallDeltas chunks"
  by (simp add: toolCallDeltas_def)

lemma fold_processChunk_table:
  "st_toolCallsByIndex (fold (processChunk u) chunks st) =
     fold assembleToolCall (toolCallDeltas chunks) (st_toolCallsByIndex st)"
proof (induction chunks arbitrary: st)
  case Nil
  show ?case by (simp add: toolCallDeltas_def)
next
  case (Cons ch chunks)
  have "st_toolCallsByIndex (fold (processChunk u) (ch # chunks) st) =
          fold assembleToolCall (toolCallDeltas chunks) (st_toolCallsByIndex (processChunk u ch st))"
    using Cons.IH by simp
  also have "\<dots> = fold assembleToolCall (toolCallDeltas [ch] @ toolCallDeltas chunks) (st_toolCallsByIndex st)"
    by (simp add: processChunk_table)
  finally show ?case by (simp add: toolCallDeltas_Cons[of ch chunks])
qed

text \<open>
  Claim C1, as amended. When the stream has ended and the accumulator \<open>a\<close> stands at
  the lowest index \<open>i\<close> of \<^verbatim>\<open>toolCallsByIndex\<close>, \<^verbatim>\<open>tooledStream\<close> returns a function call
  with the identifier and name of \<open>a\<close> and with its accumulated arguments parsed as
  JSON. When the parse fails the function call is not \<^verbatim>\<open>null\<close>: its arguments are the
  empty object, the fallback given to \<^verbatim>\<open>safeJsonParse\<close>.
\<close>

theorem tooledStream_lowest_index_fallback:
  assumes "createStream (streamRequest stringify v4 model messages functions opts) = Inr chunks"
    and "tbl = st_toolCallsByIndex (fold (processChunk (v4 0)) chunks initialStreamState)"
    and "map_of tbl i = Some a"
    and "\<forall>k \<in> set (map fst tbl). i \<le> k"
  shows "(case tooledStream parse stringify v4 createStream model messages functions opts of
            Inl e \<Rightarrow> None
          | Inr (r, evs) \<Rightarrow> functionCall r) =
         Some \<lparr>call_id = Some (acc_id a), call_name = acc_name a,
               call_arguments = (case parse (acc_arguments a) of None \<Rightarrow> JObject [] | Some v \<Rightarrow> v)\<rparr>"
  using assms(1) firstFunctionCall_lowest[OF assms(3,4), of parse]
  by (simp add: tooledStream_def Let_def streamResult_def assms(2))


text \<open>
  Claim C1 as stated fails: the arguments \<^verbatim>\<open>oops\<close> do not parse, and the function call
  returned is not \<^verbatim>\<open>null\<close>.
\<close>

theorem tooledStream_parse_failure_not_null:
  \<open>JSON_parse ''oops'' = None \<and>
   (case tooledStream JSON_parse JSON_stringify uuidSupply
           (\<lambda>req. Inr [toolCallChunk \<lparr>tcd_index = Some 0, tcd_id = Some ''c1'',
                                      tcd_name = Some ''search'', tcd_arguments = Some ''oops''\<rparr>])
           ''model'' [userHi] (Some [searchFn]) noOptions of
      Inl e \<Rightarrow> None
    | Inr (r, evs) \<Rightarrow> functionCall r) =
   Some \<lparr>call_id = Some ''c1'', call_name = ''search'', call_arguments = JObject []\<rparr>\<close>
  by code_simp

text \<open>
  Two accumulators, at the indices 1 and 0; the one at 0 holds arguments that are not
  JSON.
\<close>

theorem tooledStream_lowest_index_fallback_example:
  \<open>(case tooledStream JSON_parse JSON_stringify uuidSupply
           (\<lambda>req. Inr [toolCallChunk \<lparr>tcd_index = Some 1, tcd_id = Some ''c2'',
                                      tcd_name = Some ''lookup'', tcd_arguments = Some ''{}''\<rparr>,
                        toolCallChunk \<lparr>tcd_index = Some 0, tcd_id = Some ''c1'',
                                      tcd_name = Some ''search'', tcd_arguments = Some ''oops''\<rparr>])
           ''model'' [userHi] (Some [searchFn]) noOptions of
      Inl e \<Rightarrow> None
    | Inr (r, evs) \<Rightarrow> functionCall r) =
   Some \<lparr>call_id = Some ''c1'', call_name = ''search'', call_arguments = JObject []\<rparr>\<close>
proof -
  let ?chunks = "[toolCallChunk \<lparr>tcd_index = Some 1, tcd_id = Some ''c2'',
                                      tcd_name = Some ''lookup'', tcd_arguments = Some ''{}''\<rparr>,
                        toolCallChunk \<lparr>tcd_index = Some 0, tcd_id = Some ''c1'',
                                      tcd_name = Some ''search'', tcd_arguments = Some ''oops''\<rparr>]"
  let ?tbl = "[(1::nat, \<lparr>acc_id = ''c2'', acc_name = ''lookup'', acc_arguments = ''{}''\<rparr>),
               (0, \<lparr>acc_id = ''c1'', acc_name = ''search'', acc_arguments = ''oops''\<rparr>)]"
  have t: "?tbl = st_toolCallsByIndex (fold (processChunk (uuidSupply 0)) ?chunks initialStreamState)"
    by code_simp
  have l: "map_of ?tbl 0 = Some \<lparr>acc_id = ''c1'', acc_name = ''search'', acc_arguments = ''oops''\<rparr>"
    by simp
  have m: "\<forall>k \<in> set (map fst ?tbl). 0 \<le> k" by simp
  have p: "JSON_parse ''oops'' = None" by code_simp
  show ?thesis
    using tooledStream_lowest_index_fallback[of "\<lambda>req. Inr ?chunks" JSON_stringify uuidSupply "''model''" "[userHi]"
        "Some [searchFn]" noOptions ?chunks ?tbl 0 _ JSON_parse, OF refl t l m]
    by (simp add: p)
qed

lemma truthy_None: "truthy None = False"
  by (simp add: truthy_def)

lemma orEmpty_truthy: "(if truthy s then orEmpty s else []) = orEmpty s"
  by (cases s) (simp_all add: truthy_def orEmpty_def)

lemma assemble_first:
  "cid \<noteq> [] \<Longrightarrow>
   assembleToolCall \<lparr>tcd_index = idx, tcd_id = Some cid, tcd_name = n, tcd_arguments = a\<rparr> [] =
     [(case idx of None \<Rightarrow> 0 | Some i \<Rightarrow> i,
       \<lparr>acc_id = cid, acc_name = orEmpty n, acc_arguments = orEmpty a\<rparr>)]"
  by (simp add: assembleToolCall_def truthy_def orEmpty_def)

lemma assemble_later:
  "\<not> truthy i \<Longrightarrow>
   assembleToolCall \<lparr>tcd_index = idx, tcd_id = i, tcd_name = n, tcd_arguments = a\<rparr>
     [(case idx of None \<Rightarrow> 0 | Some k \<Rightarrow> k, acc)] =
     [(case idx of None \<Rightarrow> 0 | Some k \<Rightarrow> k,
       acc\<lparr>acc_name := acc_name acc @ orEmpty n, acc_arguments := acc_arguments acc @ orEmpty a\<rparr>)]"
  by (cases n; cases a) (simp_all add: assembleToolCall_def truthy_def orEmpty_def)

lemma fold_later:
  "\<forall>p \<in> set pieces. \<not> truthy (fst p) \<Longrightarrow>
   fold assembleToolCall
     (map (\<lambda>(i, n, a). \<lparr>tcd_index = idx, tcd_id = i, tcd_name = n, tcd_arguments = a\<rparr>) pieces)
     [(case idx of None \<Rightarrow> 0 | Some k \<Rightarrow> k, acc)] =
   [(case idx of None \<Rightarrow> 0 | Some k \<Rightarrow> k,
     acc\<lparr>acc_name := acc_name acc @ concat (map (orEmpty \<circ> fst \<circ> snd) pieces),
         acc_arguments := acc_arguments acc @ concat (map (orEmpty \<circ> snd \<circ> snd) pieces)\<rparr>)]"
proof (induction pieces arbitrary: acc)
  case Nil
  show ?case by simp
next
  case (Cons p pieces)
  obtain i n a where p: "p = (i, n, a)" by (cases p)
  have f: "\<not> truthy i" using Cons.prems by (simp add: p)
  have r: "\<forall>p \<in> set pieces. \<not> truthy (fst p)" using Cons.prems by simp
  show ?case
    by (simp add: p assemble_later[OF f] Cons.IH[OF r])
qed

lemma fragments_table:
  assumes "cid \<noteq> []" and "\<forall>p \<in> set pieces. \<not> truthy (fst p)"
  shows "fold assembleToolCall
     (\<lparr>tcd_index = idx, tcd_id = Some cid, tcd_name = n0, tcd_arguments = a0\<rparr> #
      map (\<lambda>(i, n, a). \<lparr>tcd_index = idx, tcd_id = i, tcd_name = n, tcd_arguments = a\<rparr>) pieces) [] =
   [(case idx of None \<Rightarrow> 0 | Some k \<Rightarrow> k,
     \<lparr>acc_id = cid, acc_name = orEmpty n0 @ concat (map (orEmpty \<circ> fst \<circ> snd) pieces),
       acc_arguments = orEmpty a0 @ concat (map (orEmpty \<circ> snd \<circ> snd) pieces)\<rparr>)]"
  by (simp add: assemble_first[OF assms(1)] fold_later[OF assms(2)])

lemma initial_table: "st_toolCallsByIndex initialStreamState = []"
  by (simp add: initialStreamState_def)

lemma functionCall_of_fragments:
  assumes "cid \<noteq> []" and "\<forall>p \<in> set pieces. \<not> truthy (fst p)"
    and "createStream (streamRequest stringify v4 model messages functions opts) = Inr chunks"
    and "toolCallDeltas chunks =
           \<lparr>tcd_index = idx, tcd_id = Some cid, tcd_name = n0, tcd_arguments = a0\<rparr> #
           map (\<lambda>(i, n, a). \<lparr>tcd_index = idx, tcd_id = i, tcd_name = n, tcd_arguments = a\<rparr>) pieces"
  shows "(case tooledStream parse stringify v4 createStream model messages functions opts of
            Inl e \<Rightarrow> None
          | Inr (r, evs) \<Rightarrow> functionCall r) =
         Some \<lparr>call_id = Some cid,
               call_name = orEmpty n0 @ concat (map (orEmpty \<circ> fst \<circ> snd) pieces),
               call_arguments = safeJsonParse parse
                                  (orEmpty a0 @ concat (map (orEmpty \<circ> snd \<circ> snd) pieces))
                                  (JObject [])\<rparr>"
proof -
  have "st_toolCallsByIndex (fold (processChunk (v4 0)) chunks initialStreamState) =
        [(case idx of None \<Rightarrow> 0 | Some k \<Rightarrow> k,
     \<lparr>acc_id = cid, acc_name = orEmpty n0 @ concat (map (orEmpty \<circ> fst \<circ> snd) pieces),
       acc_arguments = orEmpty a0 @ concat (map (orEmpty \<circ> snd \<circ> snd) pieces)\<rparr>)]"
    by (simp only: fold_processChunk_table assms(4) initial_table fragments_table[OF assms(1,2)])
  then show ?thesis
    using assms(3)
    by (simp add: tooledStream_def Let_def streamResult_def firstFunctionCall_def)
qed

text \<open>
  Claim C4, as amended. A tool call is delivered at a constant index: the first
  fragment carries the identifier \<open>cid\<close>, no later fragment carries an identifier (it is
  absent or empty), and the fragments carry the pieces of the name and of the
  arguments, spread over the chunks in any way. The function call \<^verbatim>\<open>tooledStream\<close>
  returns is the one it returns when the whole call arrives in a single chunk: the
  identifier, the concatenated name, and the concatenated arguments parsed.
\<close>

theorem tooledStream_fragmentation_invariant:
  assumes "cid \<noteq> []"
    and "\<forall>p \<in> set pieces. \<not> truthy (fst p)"
    and "createStream (streamRequest stringify v4 model messages functions opts) = Inr chunks"
    and "toolCallDeltas chunks =
           \<lparr>tcd_index = idx, tcd_id = Some cid, tcd_name = n0, tcd_arguments = a0\<rparr> #
           map (\<lambda>(i, n, a). \<lparr>tcd_index = idx, tcd_id = i, tcd_name = n, tcd_arguments = a\<rparr>) pieces"
    and "fname = orEmpty n0 @ concat (map (orEmpty \<circ> fst \<circ> snd) pieces)"
    and "args = orEmpty a0 @ concat (map (orEmpty \<circ> snd \<circ> snd) pieces)"
    and "createWhole (streamRequest stringify v4 model messages functions opts) =
           Inr [toolCallChunk \<lparr>tcd_index = idx, tcd_id = Some cid, tcd_name = Some fname,
                               tcd_arguments = Some args\<rparr>]"
  shows "(case tooledStream parse stringify v4 createStream model messages functions opts of
            Inl e \<Rightarrow> None
          | Inr (r, evs) \<Rightarrow> functionCall r) =
         (case tooledStream parse stringify v4 createWhole model messages functions opts of
            Inl e \<Rightarrow> None
          | Inr (r, evs) \<Rightarrow> functionCall r)
       \<and> (case tooledStream parse stringify v4 createStream model messages functions opts of
            Inl e \<Rightarrow> None
          | Inr (r, evs) \<Rightarrow> functionCall r) =
         Some \<lparr>call_id = Some cid, call_name = fname,
               call_arguments = safeJsonParse parse args (JObject [])\<rparr>"
proof -
  have none: "\<forall>p \<in> set ([] :: (string option \<times> string option \<times> string option) list). \<not> truthy (fst p)"
    by simp
  have whole: "toolCallDeltas [toolCallChunk \<lparr>tcd_index = idx, tcd_id = Some cid, tcd_name = Some fname,
                               tcd_arguments = Some args\<rparr>] =
      \<lparr>tcd_index = idx, tcd_id = Some cid, tcd_name = Some fname, tcd_arguments = Some args\<rparr> #
      map (\<lambda>(i, n, a). \<lparr>tcd_index = idx, tcd_id = i, tcd_name = n, tcd_arguments = a\<rparr>) []"
    by (simp add: toolCallDeltas_def toolCallChunk_def)
  have a: "(case tooledStream parse stringify v4 createStream model messages functions opts of
            Inl e \<Rightarrow> None
          | Inr (r, evs) \<Rightarrow> functionCall r) =
         Some \<lparr>call_id = Some cid, call_name = fname,
               call_arguments = safeJsonParse parse args (JObject [])\<rparr>"
    using functionCall_of_fragments[where createStream = createStream and chunks = chunks
        and pieces = pieces and parse = parse, OF assms(1,2,3,4)]
    by (simp add: assms(5,6))
  have b: "(case tooledStream parse stringify v4 createWhole model messages functions opts of
            Inl e \<Rightarrow> None
          | Inr (r, evs) \<Rightarrow> functionCall r) =
         Some \<lparr>call_id = Some cid, call_name = fname,
               call_arguments = safeJsonParse parse args (JObject [])\<rparr>"
    using functionCall_of_fragments[where createStream = createWhole and pieces = "[]"
        and parse = parse, OF assms(1) none assms(7) whole]
    by (simp add: orEmpty_def)
  show ?thesis using a b by simp
qed

text \<open>
  Claim C4 as stated fails. The first fragment carries the identifier and so do the
  later ones: every fragment with an identifier starts the accumulator of its index
  anew, so that the name is lost and only the last piece of the arguments is left,
  which does not parse. Delivered whole, the same call is returned complete.
\<close>

theorem tooledStream_repeated_id_restarts:
  \<open>(case tooledStream JSON_parse JSON_stringify uuidSupply
           (\<lambda>req. Inr [toolCallChunk \<lparr>tcd_index = Some 0, tcd_id = Some ''c1'',
                                      tcd_name = Some ''search'', tcd_arguments = None\<rparr>,
                        toolCallChunk \<lparr>tcd_index = Some 0, tcd_id = Some ''c1'',
                                      tcd_name = None, tcd_arguments = Some ''{"q":''\<rparr>,
                        toolCallChunk \<lparr>tcd_index = Some 0, tcd_id = Some ''c1'',
                                      tcd_name = None, tcd_arguments = Some ''"cats"}''\<rparr>])
           ''model'' [userHi] (Some [searchFn]) noOptions of
      Inl e \<Rightarrow> None
    | Inr (r, evs) \<Rightarrow> functionCall r) =
   Some \<lparr>call_id = Some ''c1'', call_name = [], call_arguments = JObject []\<rparr>
   \<and> (case tooledStream JSON_parse JSON_stringify uuidSupply
           (\<lambda>req. Inr [toolCallChunk \<lparr>tcd_index = Some 0, tcd_id = Some ''c1'',
                                      tcd_name = Some ''search'',
                                      tcd_arguments = Some ''{"q":"cats"}''\<rparr>])
           ''model'' [userHi] (Some [searchFn]) noOptions of
      Inl e \<Rightarrow> None
    | Inr (r, evs) \<Rightarrow> functionCall r) =
   Some \<lparr>call_id = Some ''c1'', call_name = ''search'',
         call_arguments = JObject [(''q'', JString ''cats'')]\<rparr>\<close>
  by code_simp

text \<open>
  The example of the text: the fragments \<^verbatim>\<open>{id:"c1", index:0, name:"search"}\<close>,
  \<^verbatim>\<open>{index:0, arguments:'{"q":'}\<close> and \<^verbatim>\<open>{index:0, arguments:'"cats"}'}\<close>.
\<close>

theorem tooledStream_fragmentation_example:
  \<open>(case tooledStream JSON_parse JSON_stringify uuidSupply
           (\<lambda>req. Inr [toolCallChunk \<lparr>tcd_index = Some 0, tcd_id = Some ''c1'',
                                      tcd_name = Some ''search'', tcd_arguments = None\<rparr>,
                        toolCallChunk \<lparr>tcd_index = Some 0, tcd_id = None,
                                      tcd_name = None, tcd_arguments = Some ''{"q":''\<rparr>,
                        toolCallChunk \<lparr>tcd_index = Some 0, tcd_id = None,
                                      tcd_name = None, tcd_arguments = Some ''"cats"}''\<rparr>])
           ''model'' [userHi] (Some [searchFn]) noOptions of
      Inl e \<Rightarrow> None
    | Inr (r, evs) \<Rightarrow> functionCall r) =
   Some \<lparr>call_id = Some ''c1'', call_name = ''search'',
         call_arguments = JObject [(''q'', JString ''cats'')]\<rparr>\<close>
proof -
  let ?chunks = \<open>[toolCallChunk \<lparr>tcd_index = Some 0, tcd_id = Some ''c1'',
                                      tcd_name = Some ''search'', tcd_arguments = None\<rparr>,
                        toolCallChunk \<lparr>tcd_index = Some 0, tcd_id = None,
                                      tcd_name = None, tcd_arguments = Some ''{"q":''\<rparr>,
                        toolCallChunk \<lparr>tcd_index = Some 0, tcd_id = None,
                                      tcd_name = None, tcd_arguments = Some ''"cats"}''\<rparr>]\<close>
  let ?pieces = \<open>[(None, None, Some ''{"q":''),
                  (None :: string option, None :: string option, Some ''"cats"}'')]\<close>
  have c: "''c1'' \<noteq> []" by simp
  have f: "\<forall>p \<in> set ?pieces. \<not> truthy (fst p)" by (simp add: truthy_def)
  have d: "toolCallDeltas ?chunks =
      \<lparr>tcd_index = Some 0, tcd_id = Some ''c1'', tcd_name = Some ''search'', tcd_arguments = None\<rparr> #
      map (\<lambda>(i, n, a). \<lparr>tcd_index = Some 0, tcd_id = i, tcd_name = n, tcd_arguments = a\<rparr>) ?pieces"
    by (simp add: toolCallDeltas_def toolCallChunk_def)
  have n: "''search'' = orEmpty (Some ''search'') @ concat (map (orEmpty \<circ> fst \<circ> snd) ?pieces)"
    by (simp add: orEmpty_def)
  have a: \<open>''{"q":"cats"}'' = orEmpty None @ concat (map (orEmpty \<circ> snd \<circ> snd) ?pieces)\<close>
    by (simp add: orEmpty_def)
  have p: \<open>safeJsonParse JSON_parse ''{"q":"cats"}'' (JObject []) = JObject [(''q'', JString ''cats'')]\<close>
    by code_simp
  note r = tooledStream_fragmentation_invariant[where createStream = "\<lambda>req. Inr ?chunks"
        and createWhole = \<open>\<lambda>req. Inr [toolCallChunk \<lparr>tcd_index = Some 0, tcd_id = Some ''c1'',
              tcd_name = Some ''search'', tcd_arguments = Some ''{"q":"cats"}''\<rparr>]\<close>
        and parse = JSON_parse and stringify = JSON_stringify and ?v4.0 = uuidSupply
        and model = "''model''" and messages = "[userHi]" and ?functions = "Some [searchFn]"
        and opts = noOptions, OF c f refl d n a refl]
  from conjunct2[OF r] show ?thesis by (simp only: p)
qed

section \<open>Requests without tools\<close>

lemma formatFunctionsToTools_empty:
  "functions = None \<or> functions = Some [] \<Longrightarrow> formatFunctionsToTools functions = []"
  by (auto simp: formatFunctionsToTools_def)

text \<open>
  Claim C5. For an input that is empty or not an array \<^verbatim>\<open>formatFunctionsToTools\<close>
  returns the empty list, and the request of either driver then has no \<^verbatim>\<open>tools\<close>
  field: the drivers behave the same against any two clients that agree on the
  requests without that field.
\<close>

theorem empty_functions_omit_tools:
  assumes "functions = None \<or> functions = Some []"
    and "\<forall>req. req_tools req = None \<longrightarrow> createStream req = createStream' req"
    and "\<forall>req. req_tools req = None \<longrightarrow> create req = create' req"
  shows "formatFunctionsToTools functions = []
       \<and> req_tools (streamRequest stringify v4 model messages functions opts) = None
       \<and> req_tools (completeRequest stringify v4 model messages functions opts) = None
       \<and> tooledStream parse stringify v4 createStream model messages functions opts =
         tooledStream parse stringify v4 createStream' model messages functions opts
       \<and> tooledComplete parse stringify v4 create model messages functions getCostFn opts =
         tooledComplete parse stringify v4 create' model messages functions getCostFn opts"
proof -
  have e: "formatFunctionsToTools functions = []"
    using assms(1) by (rule formatFunctionsToTools_empty)
  have s: "req_tools (streamRequest stringify v4 model messages functions opts) = None"
    by (simp add: streamRequest_def toolsField_def e)
  have c: "req_tools (completeRequest stringify v4 model messages functions opts) = None"
    by (simp add: completeRequest_def toolsField_def e)
  have ts: "tooledStream parse stringify v4 createStream model messages functions opts =
         tooledStream parse stringify v4 createStream' model messages functions opts"
    using assms(2) s by (simp add: tooledStream_def)
  have tc: "tooledComplete parse stringify v4 create model messages functions getCostFn opts =
         tooledComplete parse stringify v4 create' model messages functions getCostFn opts"
    using assms(3) c by (simp add: tooledComplete_def)
  show ?thesis using e s c ts tc by blast
qed

text \<open>
  The example of the text: no tools and the history \<^verbatim>\<open>[{role:"user",content:"hi"}]\<close>,
  against a backend that rejects every request with a \<^verbatim>\<open>tools\<close> field and otherwise
  answers with text.
\<close>

theorem empty_functions_omit_tools_example:
  "formatFunctionsToTools (Some []) = []
   \<and> req_tools (completeRequest JSON_stringify uuidSupply ''model'' [userHi] (Some []) noOptions) = None
   \<and> tooledComplete JSON_parse JSON_stringify uuidSupply textOnlyBackend ''model'' [userHi] (Some [])
        (\<lambda>u. 0) noOptions =
      Inr \<lparr>textResponse = Some ''provider text'', functionCall = None, retryWithError = None,
           cost = Some 0\<rparr>"
proof -
  have t: "tooledComplete JSON_parse JSON_stringify uuidSupply textOnlyBackend ''model'' [userHi] (Some [])
        (\<lambda>u. 0) noOptions =
      Inr \<lparr>textResponse = Some ''provider text'', functionCall = None, retryWithError = None,
           cost = Some 0\<rparr>"
    by code_simp
  show ?thesis
    using empty_functions_omit_tools[where ?functions = "Some []" and createStream = "\<lambda>req. Inl (JsError [])"
        and createStream' = "\<lambda>req. Inl (JsError [])" and create = textOnlyBackend
        and create' = textOnlyBackend and stringify = JSON_stringify and ?v4.0 = uuidSupply
        and model = "''model''" and messages = "[userHi]" and opts = noOptions] t
    by simp
qed

section \<open>The non-streaming driver\<close>

lemma completionOf_not_both:
  "completionOf parse getCostFn response = Inr r \<Longrightarrow> textResponse r = None \<or> functionCall r = None"
  by (auto simp: completionOf_def Let_def split: list.splits option.splits if_splits)

lemma tooledComplete_not_both:
  "tooledComplete parse stringify v4 create model messages functions getCostFn opts = Inr r
     \<Longrightarrow> textResponse r = None \<or> functionCall r = None"
  by (auto simp: tooledComplete_def split: sum.splits dest: completionOf_not_both)

text \<open>
  Claim C10, as amended. When the first tool call of the response has arguments that
  parse as JSON to a value other than \<^verbatim>\<open>null\<close>, \<^verbatim>\<open>tooledComplete\<close> returns
  \<^verbatim>\<open>textResponse = null\<close> with the identifier, the name and the parsed arguments of that
  first tool call, whatever text the response carries; and no result of
  \<^verbatim>\<open>tooledComplete\<close> has both a text response and a function call.
\<close>

theorem tooledComplete_first_tool_call:
  assumes "create (completeRequest stringify v4 model messages functions opts) = Inr response"
    and "choices response = completion # others"
    and "cm_tool_calls completion = Some (toolCall # rest)"
    and "parse (rtc_arguments toolCall) = Some v"
    and "v \<noteq> JNull"
  shows "tooledComplete parse stringify v4 create model messages functions getCostFn opts =
           Inr \<lparr>textResponse = None,
                functionCall = Some \<lparr>call_id = Some (rtc_id toolCall), call_name = rtc_name toolCall,
                                      call_arguments = v\<rparr>,
                retryWithError = None, cost = Some (getCostFn (usage response))\<rparr>
         \<and> (\<forall>create' messages' functions' r.
               tooledComplete parse stringify v4 create' model messages' functions' getCostFn opts = Inr r
                 \<longrightarrow> textResponse r = None \<or> functionCall r = None)"
proof -
  have a: "tooledComplete parse stringify v4 create model messages functions getCostFn opts =
           Inr \<lparr>textResponse = None,
                functionCall = Some \<lparr>call_id = Some (rtc_id toolCall), call_name = rtc_name toolCall,
                                      call_arguments = v\<rparr>,
                retryWithError = None, cost = Some (getCostFn (usage response))\<rparr>"
    using assms by (simp add: tooledComplete_def completionOf_def safeJsonParse_def Let_def)
  have b: "\<forall>create' messages' functions' r.
               tooledComplete parse stringify v4 create' model messages' functions' getCostFn opts = Inr r
                 \<longrightarrow> textResponse r = None \<or> functionCall r = None"
    by (intro allI impI) (rule tooledComplete_not_both)
  show ?thesis by (rule conjI[OF a b])
qed

text \<open>A response with text and one tool call.\<close>

theorem tooledComplete_first_tool_call_example:
  \<open>tooledComplete JSON_parse JSON_stringify uuidSupply
      (\<lambda>req. Inr (toolCallResponse (Some ''Let me search for that.'')
                     [\<lparr>rtc_id = ''c1'', rtc_name = ''search'', rtc_arguments = ''{"q":"cats"}''\<rparr>]))
      ''model'' [userHi] (Some [searchFn]) getCost noOptions =
    Inr \<lparr>textResponse = None,
         functionCall = Some \<lparr>call_id = Some ''c1'', call_name = ''search'',
                               call_arguments = JObject [(''q'', JString ''cats'')]\<rparr>,
         retryWithError = None, cost = Some 0\<rparr>\<close>
proof -
  have p: \<open>JSON_parse ''{"q":"cats"}'' = Some (JObject [(''q'', JString ''cats'')])\<close> by code_simp
  have c: \<open>choices (toolCallResponse (Some ''Let me search for that.'')
                     [\<lparr>rtc_id = ''c1'', rtc_name = ''search'', rtc_arguments = ''{"q":"cats"}''\<rparr>]) =
           \<lparr>cm_content = Some ''Let me search for that.'', cm_tool_calls = Some [\<lparr>rtc_id = ''c1'', rtc_name = ''search'', rtc_arguments = ''{"q":"cats"}''\<rparr>]\<rparr> # []\<close>
    by (simp add: toolCallResponse_def)
  note r = tooledComplete_first_tool_call[where create = \<open>\<lambda>req. Inr (toolCallResponse (Some ''Let me search for that.'')
                     [\<lparr>rtc_id = ''c1'', rtc_name = ''search'', rtc_arguments = ''{"q":"cats"}''\<rparr>])\<close>
            and parse = JSON_parse and stringify = JSON_stringify and ?v4.0 = uuidSupply
            and model = "''model''" and messages = "[userHi]" and ?functions = "Some [searchFn]"
            and opts = noOptions and getCostFn = getCost
            and toolCall = \<open>\<lparr>rtc_id = ''c1'', rtc_name = ''search'', rtc_arguments = ''{"q":"cats"}''\<rparr>\<close>
            and rest = "[]", OF refl c]
  have "JObject [(''q'', JString ''cats'')] \<noteq> JNull" by simp
  from conjunct1[OF r[OF _ _ this]] show ?thesis
    by (simp add: p getCost_def toolCallResponse_def)
qed

text \<open>
  Claim C10 as stated fails. A response whose second tool call has arguments that
  parse, but whose first has not, yields no function call; neither does a response
  whose only tool call has the arguments \<^verbatim>\<open>null\<close>, which parse as JSON.
\<close>

theorem tooledComplete_later_or_null_arguments_no_call:
  \<open>JSON_parse ''{"q":"cats"}'' = Some (JObject [(''q'', JString ''cats'')])
   \<and> (case tooledComplete JSON_parse JSON_stringify uuidSupply
          (\<lambda>req. Inr (toolCallResponse (Some ''Let me search for that.'')
                     [\<lparr>rtc_id = ''c0'', rtc_name = ''lookup'', rtc_arguments = ''oops''\<rparr>,
                      \<lparr>rtc_id = ''c1'', rtc_name = ''search'', rtc_arguments = ''{"q":"cats"}''\<rparr>]))
          ''model'' [userHi] (Some [searchFn]) getCost noOptions of
         Inl e \<Rightarrow> None | Inr r \<Rightarrow> Some (functionCall r)) = Some None
   \<and> JSON_parse ''null'' = Some JNull
   \<and> (case tooledComplete JSON_parse JSON_stringify uuidSupply
          (\<lambda>req. Inr (toolCallResponse None
                     [\<lparr>rtc_id = ''c1'', rtc_name = ''search'', rtc_arguments = ''null''\<rparr>]))
          ''model'' [userHi] (Some [searchFn]) getCost noOptions of
         Inl e \<Rightarrow> None | Inr r \<Rightarrow> Some (functionCall r)) = Some None\<close>
  by code_simp

section \<open>The retry of \<^verbatim>\<open>complete\<close>\<close>

lemma Lemonade_complete_fuel_sound:
  "Lemonade_complete_fuel n rt p messages functions = Some y
     \<Longrightarrow> Lemonade_complete rt p messages functions = Some y"
proof (induction n arbitrary: p messages)
  case 0
  then show ?case by simp
next
  case (Suc n)
  show ?case
  proof (cases "Lemonade_completeOnce rt p messages functions")
    case (Pair out p')
    show ?thesis
    proof (cases out)
      case (Return r)
      with Pair Suc.prems show ?thesis
        by (subst Lemonade_complete.simps) simp
    next
      case (Reinvoke messages')
      with Pair Suc.prems have "Lemonade_complete_fuel n rt p' messages' functions = Some y"
        by simp
      then have "Lemonade_complete rt p' messages' functions = Some y" by (rule Suc.IH)
      with Pair Reinvoke show ?thesis
        by (subst Lemonade_complete.simps) simp
    qed
  qed
qed

lemma Lemonade_complete_never_returns:
  assumes step: "\<And>p messages. I p \<Longrightarrow>
            \<exists>messages' p'. Lemonade_completeOnce rt p messages functions = (Reinvoke messages', p') \<and> I p'"
    and "I p"
  shows "Lemonade_complete rt p messages functions = None"
proof (rule ccontr)
  assume "Lemonade_complete rt p messages functions \<noteq> None"
  then obtain y where y: "Lemonade_complete rt p messages functions = Some y" by auto
  have "rt = rt \<longrightarrow> functions = functions \<longrightarrow> I p \<longrightarrow> False"
  proof (rule Lemonade_complete.raw_induct[where P = "\<lambda>rt' p' m' f' y'. rt' = rt \<longrightarrow> f' = functions \<longrightarrow> I p' \<longrightarrow> False", OF _ y])
    fix f rt' p' m' f' y'
    assume IH: "\<And>p messages functions' b y. f p messages functions' b = Some y \<Longrightarrow>
                  p = rt \<longrightarrow> b = functions \<longrightarrow> I messages \<longrightarrow> False"
      and body: "(case Lemonade_completeOnce rt' p' m' f' of
                    (Return r, p'') \<Rightarrow> Some (r, p'')
                  | (Reinvoke messages', p'') \<Rightarrow> f rt' p'' messages' f') = Some y'"
    show "rt' = rt \<longrightarrow> f' = functions \<longrightarrow> I p' \<longrightarrow> False"
    proof (intro impI)
      assume eq: "rt' = rt" "f' = functions" and inv: "I p'"
      from step[OF inv, of m'] obtain m'' p'' where
        s: "Lemonade_completeOnce rt p' m' functions = (Reinvoke m'', p'')" and i: "I p''" by blast
      from body eq s have "f rt p'' m'' functions = Some y'" by simp
      from IH[OF this] i show False by simp
    qed
  qed
  with assms(2) show False by simp
qed


lemma completionOf_malformed:
  assumes "choices response = completion # others"
    and "cm_tool_calls completion = Some (toolCall # rest)"
    and "parse (rtc_arguments toolCall) = None"
  shows "completionOf parse getCostFn response =
           Inr \<lparr>textResponse = None, functionCall = None,
                retryWithError = Some (retryMessage toolCall),
                cost = Some (getCostFn (usage response))\<rparr>"
  using assms by (simp add: completionOf_def safeJsonParse_def Let_def)

lemma tooledComplete_malformed:
  assumes "create (completeRequest stringify v4 model messages functions opts) = Inr response"
    and "choices response = completion # others"
    and "cm_tool_calls completion = Some (toolCall # rest)"
    and "parse (rtc_arguments toolCall) = None"
  shows "tooledComplete parse stringify v4 create model messages functions getCostFn opts =
           Inr \<lparr>textResponse = None, functionCall = None,
                retryWithError = Some (retryMessage toolCall),
                cost = Some (getCostFn (usage response))\<rparr>"
  using assms(1) completionOf_malformed[where parse = parse and getCostFn = getCostFn, OF assms(2,3,4)]
  by (simp add: tooledComplete_def)

lemma Lemonade_completeOnce_malformed:
  assumes "Lemonade_preloadModel rt p = (None, p1)"
    and "Lemonade_useNative rt p1 functions = (Inr True, p2)"
    and "rt_create rt (completeRequest (rt_stringify rt) (rt_v4 rt) (p_model p2) messages
           (Some functions) \<lparr>injectReasoningContent = False\<rparr>) = Inr response"
    and "choices response = completion # others"
    and "cm_tool_calls completion = Some (toolCall # rest)"
    and "rt_parse rt (rtc_arguments toolCall) = None"
  shows "Lemonade_completeOnce rt p messages functions =
           (Reinvoke (messages @ [retryMessage toolCall]), emit CallTooledComplete p2)"
  using assms(1,2)
    tooledComplete_malformed[where create = "rt_create rt" and parse = "rt_parse rt"
      and getCostFn = getCost, OF assms(3,4,5,6)]
  by (simp add: Lemonade_completeOnce_def)

text \<open>
  Claim C3, as amended. On the native path of \<^verbatim>\<open>LemonadeProvider.complete\<close>, a response
  whose first tool call has arguments that do not parse makes \<^verbatim>\<open>tooledComplete\<close> return
  a retry signal and neither a result nor an exception: a \<^verbatim>\<open>function\<close> message that
  reports the raw arguments. \<^verbatim>\<open>complete\<close> then invokes itself with that message appended
  to the history, and does so every time this happens: nothing bounds the number of
  invocations.
\<close>

theorem malformed_arguments_retry_signal:
  assumes "Lemonade_preloadModel rt p = (None, p1)"
    and "Lemonade_useNative rt p1 functions = (Inr True, p2)"
    and "rt_create rt (completeRequest (rt_stringify rt) (rt_v4 rt) (p_model p2) messages
           (Some functions) \<lparr>injectReasoningContent = False\<rparr>) = Inr response"
    and "choices response = completion # others"
    and "cm_tool_calls completion = Some (toolCall # rest)"
    and "rt_parse rt (rtc_arguments toolCall) = None"
  shows "tooledComplete (rt_parse rt) (rt_stringify rt) (rt_v4 rt) (rt_create rt) (p_model p2) messages
           (Some functions) getCost \<lparr>injectReasoningContent = False\<rparr> =
           Inr \<lparr>textResponse = None, functionCall = None,
                retryWithError = Some (retryMessage toolCall), cost = Some 0\<rparr>
       \<and> role (retryMessage toolCall) = ''function''
       \<and> content (retryMessage toolCall) =
           Text (''Failed to parse tool call arguments as JSON. Raw arguments: '' @ rtc_arguments toolCall)
       \<and> Lemonade_complete rt p messages functions =
           Lemonade_complete rt (emit CallTooledComplete p2) (messages @ [retryMessage toolCall]) functions"
proof -
  have a: "tooledComplete (rt_parse rt) (rt_stringify rt) (rt_v4 rt) (rt_create rt) (p_model p2) messages
           (Some functions) getCost \<lparr>injectReasoningContent = False\<rparr> =
           Inr \<lparr>textResponse = None, functionCall = None,
                retryWithError = Some (retryMessage toolCall), cost = Some 0\<rparr>"
    using tooledComplete_malformed[where create = "rt_create rt" and parse = "rt_parse rt"
        and getCostFn = getCost, OF assms(3,4,5,6)]
    by (simp add: getCost_def)
  have b: "role (retryMessage toolCall) = ''function''
       \<and> content (retryMessage toolCall) =
           Text (''Failed to parse tool call arguments as JSON. Raw arguments: '' @ rtc_arguments toolCall)"
    by (simp add: retryMessage_def)
  have c: "Lemonade_complete rt p messages functions =
           Lemonade_complete rt (emit CallTooledComplete p2) (messages @ [retryMessage toolCall]) functions"
    by (subst Lemonade_complete.simps) (simp add: Lemonade_completeOnce_malformed[OF assms])
  show ?thesis using a b c by simp
qed

lemma Lemonade_preloadModel_ok:
  assumes "rt_loadModel rt (p_model p) = None"
  shows "\<exists>p1. Lemonade_preloadModel rt p = (None, p1)
              \<and> supportsToolCalling p1 = supportsToolCalling p \<and> p_model p1 = p_model p"
  using assms by (simp add: Lemonade_preloadModel_def emit_def)

lemma Lemonade_useNative_flag:
  assumes "truthyValue (envIncludes (rt_native_tool_calling_env rt) ''lemonade'')"
    and "functions \<noteq> []"
    and "supportsToolCalling p = None \<or> supportsToolCalling p = Some JsTrue"
  shows "\<exists>p'. Lemonade_useNative rt p functions = (Inr True, p')
              \<and> supportsToolCalling p' = Some JsTrue \<and> p_model p' = p_model p"
proof (cases "supportsToolCalling p")
  case None
  with assms(1,2) show ?thesis
    by (simp add: Lemonade_useNative_def Lemonade_supportsNativeToolCalling_def emit_def)
next
  case (Some v)
  with assms(3) have "v = JsTrue" by simp
  with Some assms(2) show ?thesis
    by (simp add: Lemonade_useNative_def Lemonade_supportsNativeToolCalling_def)
qed

lemma parse_oops: "JSON_parse ''oops'' = None"
  by code_simp

text \<open>
  Claim C3 as stated fails. Against a backend that answers twice with the same
  unparsable arguments \<^verbatim>\<open>complete\<close> calls \<^verbatim>\<open>tooledComplete\<close> three times, and against a
  backend that always does it never returns.
\<close>

theorem malformed_arguments_retry_unbounded:
  "Lemonade_complete (exampleRuntime (\<lambda>req. Inr []) (malformedUntil 5) (Some ''lemonade'') JsFalse)
      newProvider [userHi] [searchFn] =
    Some (Inr \<lparr>textResponse = None,
               functionCall = Some \<lparr>call_id = Some ''c1'', call_name = ''search'',
                                     call_arguments = JObject [(''q'', JString ''cats'')]\<rparr>,
               retryWithError = None, cost = Some 0\<rparr>,
          \<lparr>p_model = ''model'', preloaded = True, supportsToolCalling = Some JsTrue,
           effects = [LoadModel,
                      ProviderLog ''Lemonade supports native tool calling is ENABLED via ENV.'',
                      CallTooledComplete, CallTooledComplete, CallTooledComplete]\<rparr>)
   \<and> Lemonade_complete (exampleRuntime (\<lambda>req. Inr []) alwaysMalformed (Some ''lemonade'') JsFalse)
      newProvider [userHi] [searchFn] = None"
proof -
  have "Lemonade_complete_fuel 3 (exampleRuntime (\<lambda>req. Inr []) (malformedUntil 5) (Some ''lemonade'') JsFalse)
      newProvider [userHi] [searchFn] =
    Some (Inr \<lparr>textResponse = None,
               functionCall = Some \<lparr>call_id = Some ''c1'', call_name = ''search'',
                                     call_arguments = JObject [(''q'', JString ''cats'')]\<rparr>,
               retryWithError = None, cost = Some 0\<rparr>,
          \<lparr>p_model = ''model'', preloaded = True, supportsToolCalling = Some JsTrue,
           effects = [LoadModel,
                      ProviderLog ''Lemonade supports native tool calling is ENABLED via ENV.'',
                      CallTooledComplete, CallTooledComplete, CallTooledComplete]\<rparr>)"
    by code_simp
  then have a: "Lemonade_complete (exampleRuntime (\<lambda>req. Inr []) (malformedUntil 5) (Some ''lemonade'') JsFalse)
      newProvider [userHi] [searchFn] =
    Some (Inr \<lparr>textResponse = None,
               functionCall = Some \<lparr>call_id = Some ''c1'', call_name = ''search'',
                                     call_arguments = JObject [(''q'', JString ''cats'')]\<rparr>,
               retryWithError = None, cost = Some 0\<rparr>,
          \<lparr>p_model = ''model'', preloaded = True, supportsToolCalling = Some JsTrue,
           effects = [LoadModel,
                      ProviderLog ''Lemonade supports native tool calling is ENABLED via ENV.'',
                      CallTooledComplete, CallTooledComplete, CallTooledComplete]\<rparr>)"
    by (rule Lemonade_complete_fuel_sound)
  let ?rt = "exampleRuntime (\<lambda>req. Inr []) alwaysMalformed (Some ''lemonade'') JsFalse"
  have env: "truthyValue (envIncludes (Some ''lemonade'') ''lemonade'')" by code_simp
  have step: "\<exists>messages' p'. Lemonade_completeOnce ?rt p messages [searchFn] = (Reinvoke messages', p')
                 \<and> (supportsToolCalling p' = None \<or> supportsToolCalling p' = Some JsTrue)"
    if "supportsToolCalling p = None \<or> supportsToolCalling p = Some JsTrue" for p messages
  proof -
    have "rt_loadModel ?rt (p_model p) = None" by (simp add: exampleRuntime_def)
    from Lemonade_preloadModel_ok[OF this] obtain p1 where
      p1: "Lemonade_preloadModel ?rt p = (None, p1)"
      and c1: "supportsToolCalling p1 = supportsToolCalling p" by blast
    have "truthyValue (envIncludes (rt_native_tool_calling_env ?rt) ''lemonade'')"
      using env by (simp add: exampleRuntime_def)
    from Lemonade_useNative_flag[OF this, of "[searchFn]" p1] that c1 obtain p2 where
      p2: "Lemonade_useNative ?rt p1 [searchFn] = (Inr True, p2)"
      and c2: "supportsToolCalling p2 = Some JsTrue" by auto
    have "Lemonade_completeOnce ?rt p messages [searchFn] =
            (Reinvoke (messages @ [retryMessage \<lparr>rtc_id = ''c1'', rtc_name = ''search'', rtc_arguments = ''oops''\<rparr>]),
             emit CallTooledComplete p2)"
    proof (rule Lemonade_completeOnce_malformed[OF p1 p2])
      show "rt_create ?rt (completeRequest (rt_stringify ?rt) (rt_v4 ?rt) (p_model p2) messages
              (Some [searchFn]) \<lparr>injectReasoningContent = False\<rparr>) =
            Inr (toolCallResponse None [\<lparr>rtc_id = ''c1'', rtc_name = ''search'', rtc_arguments = ''oops''\<rparr>])"
        by (simp add: exampleRuntime_def alwaysMalformed_def)
      show "choices (toolCallResponse None [\<lparr>rtc_id = ''c1'', rtc_name = ''search'', rtc_arguments = ''oops''\<rparr>]) =
            \<lparr>cm_content = None, cm_tool_calls = Some [\<lparr>rtc_id = ''c1'', rtc_name = ''search'', rtc_arguments = ''oops''\<rparr>]\<rparr> # []"
        by (simp add: toolCallResponse_def)
      show "cm_tool_calls \<lparr>cm_content = None, cm_tool_calls = Some [\<lparr>rtc_id = ''c1'', rtc_name = ''search'', rtc_arguments = ''oops''\<rparr>]\<rparr> =
            Some (\<lparr>rtc_id = ''c1'', rtc_name = ''search'', rtc_arguments = ''oops''\<rparr> # [])"
        by simp
      show "rt_parse ?rt (rtc_arguments \<lparr>rtc_id = ''c1'', rtc_name = ''search'', rtc_arguments = ''oops''\<rparr>) = None"
        by (simp add: exampleRuntime_def parse_oops)
    qed
    with c2 show ?thesis by (simp add: emit_def)
  qed
  have b: "Lemonade_complete ?rt newProvider [userHi] [searchFn] = None"
    by (rule Lemonade_complete_never_returns[where I = "\<lambda>p. supportsToolCalling p = None \<or> supportsToolCalling p = Some JsTrue"])
       (simp_all add: step newProvider_def)
  show ?thesis using a b by simp
qed


text \<open>A backend that answers once with unparsable arguments.\<close>

theorem malformed_arguments_retry_signal_example:
  "tooledComplete JSON_parse JSON_stringify uuidSupply (malformedUntil 3) ''model'' [userHi]
       (Some [searchFn]) getCost \<lparr>injectReasoningContent = False\<rparr> =
     Inr \<lparr>textResponse = None, functionCall = None,
          retryWithError = Some (retryMessage \<lparr>rtc_id = ''c1'', rtc_name = ''search'', rtc_arguments = ''oops''\<rparr>),
          cost = Some 0\<rparr>
   \<and> content (retryMessage \<lparr>rtc_id = ''c1'', rtc_name = ''search'', rtc_arguments = ''oops''\<rparr>) =
       Text ''Failed to parse tool call arguments as JSON. Raw arguments: oops''
   \<and> Lemonade_complete (exampleRuntime (\<lambda>req. Inr []) (malformedUntil 3) (Some ''lemonade'') JsFalse)
       newProvider [userHi] [searchFn] =
     Lemonade_complete (exampleRuntime (\<lambda>req. Inr []) (malformedUntil 3) (Some ''lemonade'') JsFalse)
       \<lparr>p_model = ''model'', preloaded = True, supportsToolCalling = Some JsTrue,
        effects = [LoadModel,
                   ProviderLog ''Lemonade supports native tool calling is ENABLED via ENV.'',
                   CallTooledComplete]\<rparr>
       [userHi, retryMessage \<lparr>rtc_id = ''c1'', rtc_name = ''search'', rtc_arguments = ''oops''\<rparr>]
       [searchFn]"
proof -
  let ?rt = "exampleRuntime (\<lambda>req. Inr []) (malformedUntil 3) (Some ''lemonade'') JsFalse"
  let ?tc = "\<lparr>rtc_id = ''c1'', rtc_name = ''search'', rtc_arguments = ''oops''\<rparr>"
  let ?p1 = "\<lparr>p_model = ''model'', preloaded = True, supportsToolCalling = None,
             effects = [LoadModel]\<rparr>"
  let ?p2 = "\<lparr>p_model = ''model'', preloaded = True, supportsToolCalling = Some JsTrue,
             effects = [LoadModel,
                        ProviderLog ''Lemonade supports native tool calling is ENABLED via ENV.'']\<rparr>"
  have h1: "Lemonade_preloadModel ?rt newProvider = (None, ?p1)" by code_simp
  have h2: "Lemonade_useNative ?rt ?p1 [searchFn] = (Inr True, ?p2)" by code_simp
  have h3: "rt_create ?rt (completeRequest (rt_stringify ?rt) (rt_v4 ?rt) (p_model ?p2) [userHi]
              (Some [searchFn]) \<lparr>injectReasoningContent = False\<rparr>) = Inr (toolCallResponse None [?tc])"
    by code_simp
  have h4: "choices (toolCallResponse None [?tc]) = \<lparr>cm_content = None, cm_tool_calls = Some [?tc]\<rparr> # []"
    by (simp add: toolCallResponse_def)
  have h5: "cm_tool_calls \<lparr>cm_content = None, cm_tool_calls = Some [?tc]\<rparr> = Some (?tc # [])"
    by simp
  have h6: "rt_parse ?rt (rtc_arguments ?tc) = None"
    by (simp add: exampleRuntime_def parse_oops)
  have e: "emit CallTooledComplete ?p2 =
       \<lparr>p_model = ''model'', preloaded = True, supportsToolCalling = Some JsTrue,
        effects = [LoadModel,
                   ProviderLog ''Lemonade supports native tool calling is ENABLED via ENV.'',
                   CallTooledComplete]\<rparr>"
    by (simp add: emit_def)
  show ?thesis
    using malformed_arguments_retry_signal[OF h1 h2 h3 h4 h5 h6]
    by (simp add: e exampleRuntime_def)
qed

section \<open>Facts on the adapters\<close>


lemma Lemonade_preloadModel_effects:
  assumes "Lemonade_preloadModel rt p = (r, p1)"
  shows "\<exists>xs. effects p1 = effects p @ xs \<and> set xs \<subseteq> {LoadModel}"
    and "p_model p1 = p_model p"
  using assms
  by (auto simp: Lemonade_preloadModel_def emit_def split: if_splits option.splits)

lemma Lemonade_probe_effects:
  assumes "Lemonade_supportsNativeToolCalling rt p = (r, p')"
  shows "\<exists>xs. effects p' = effects p @ xs \<and> set xs \<subseteq> insert GetModelCapabilities (range ProviderLog)"
    and "p_model p' = p_model p"
  using assms
  by (auto simp: Lemonade_supportsNativeToolCalling_def emit_def Let_def
           split: if_splits option.splits sum.splits)

lemma LMStudio_probe_effects:
  assumes "LMStudio_supportsNativeToolCalling rt p = (r, p')"
  shows "\<exists>xs. effects p' = effects p @ xs \<and> set xs \<subseteq> insert GetModelCapabilities (range ProviderLog)"
    and "p_model p' = p_model p"
  using assms
  by (auto simp: LMStudio_supportsNativeToolCalling_def emit_def Let_def
           split: if_splits option.splits sum.splits)

lemma DockerModelRunner_probe_effects:
  assumes "DockerModelRunner_supportsNativeToolCalling rt p = (r, p')"
  shows "\<exists>xs. effects p' = effects p @ xs \<and> set xs \<subseteq> insert GetModelCapabilities (range ProviderLog)"
    and "p_model p' = p_model p"
  using assms
  by (auto simp: DockerModelRunner_supportsNativeToolCalling_def emit_def Let_def
           split: if_splits option.splits sum.splits)

lemma LocalAi_probe_effects:
  assumes "LocalAi_supportsNativeToolCalling rt p = (v, p')"
  shows "\<exists>xs. effects p' = effects p @ xs \<and> set xs \<subseteq> range ProviderLog"
    and "p_model p' = p_model p"
  using assms
  by (auto simp: LocalAi_supportsNativeToolCalling_def emit_def Let_def
           split: if_splits option.splits)

lemma GenericOpenAi_probe_effects:
  assumes "GenericOpenAi_supportsNativeToolCalling rt p = (v, p')"
  shows "\<exists>xs. effects p' = effects p @ xs \<and> set xs \<subseteq> range ProviderLog"
    and "p_model p' = p_model p"
  using assms
  by (auto simp: GenericOpenAi_supportsNativeToolCalling_def emit_def Let_def
           split: if_splits option.splits)

lemma OpenRouter_probe_effects:
  assumes "OpenRouter_supportsNativeToolCalling rt p = (v, p')"
  shows "\<exists>xs. effects p' = effects p @ xs \<and> set xs \<subseteq> range ProviderLog"
    and "p_model p' = p_model p"
  using assms
  by (auto simp: OpenRouter_supportsNativeToolCalling_def emit_def Let_def
           split: if_splits option.splits)

section \<open>Errors on the native path\<close>
























section \<open>The choice between the native and the prompt based driver\<close>

lemma Lemonade_stream_chooses:
  assumes "Lemonade_preloadModel rt p = (None, p1)"
    and "functions = [] \<or> Lemonade_supportsNativeToolCalling rt p1 = (Inr v, p2)"
  shows "streamChoice (functions \<noteq> [] \<and> truthyValue v) rt p messages functions noOptions
           (Lemonade_stream rt p messages functions)"
proof -
  from Lemonade_preloadModel_effects[OF assms(1)] obtain xs where
    xs: "effects p1 = effects p @ xs" "set xs \<subseteq> {LoadModel}" and m1: "p_model p1 = p_model p"
    by blast
  show ?thesis
  proof (cases "functions = []")
    case True
    then show ?thesis
      using assms(1) xs
      by (auto simp: streamChoice_def completeChoice_def chooses_def Lemonade_stream_def Lemonade_useNative_def newEffects_def emit_def)
  next
    case False
    with assms(2) have pr: "Lemonade_supportsNativeToolCalling rt p1 = (Inr v, p2)" by simp
    from Lemonade_probe_effects[OF pr] obtain ys where
      ys: "effects p2 = effects p1 @ ys" "set ys \<subseteq> insert GetModelCapabilities (range ProviderLog)"
      and m2: "p_model p2 = p_model p1" by blast
    show ?thesis
      using False assms(1) pr xs ys m1 m2
      by (auto simp: streamChoice_def completeChoice_def chooses_def Lemonade_stream_def Lemonade_useNative_def newEffects_def emit_def
            streamOutcome_def callTooledStream_def noOptions_def)
  qed
qed

lemma Lemonade_completeOnce_chooses:
  assumes "Lemonade_preloadModel rt p = (None, p1)"
    and "functions = [] \<or> Lemonade_supportsNativeToolCalling rt p1 = (Inr v, p2)"
  shows "completeChoice (functions \<noteq> [] \<and> truthyValue v) rt p messages functions noOptions
           (Lemonade_completeOnce rt p messages functions)"
proof -
  from Lemonade_preloadModel_effects[OF assms(1)] obtain xs where
    xs: "effects p1 = effects p @ xs" "set xs \<subseteq> {LoadModel}" and m1: "p_model p1 = p_model p"
    by blast
  show ?thesis
  proof (cases "functions = []")
    case True
    then show ?thesis
      using assms(1) xs
      by (auto simp: streamChoice_def completeChoice_def chooses_def Lemonade_completeOnce_def Lemonade_useNative_def newEffects_def emit_def)
  next
    case False
    with assms(2) have pr: "Lemonade_supportsNativeToolCalling rt p1 = (Inr v, p2)" by simp
    from Lemonade_probe_effects[OF pr] obtain ys where
      ys: "effects p2 = effects p1 @ ys" "set ys \<subseteq> insert GetModelCapabilities (range ProviderLog)"
      and m2: "p_model p2 = p_model p1" by blast
    show ?thesis
      using False assms(1) pr xs ys m1 m2
      by (auto simp: streamChoice_def completeChoice_def chooses_def Lemonade_completeOnce_def Lemonade_useNative_def newEffects_def emit_def
            completeOutcome_def callTooledComplete_def noOptions_def split: sum.splits option.splits)
  qed
qed

lemma LMStudio_stream_chooses:
  assumes "functions = [] \<or>
             LMStudio_supportsNativeToolCalling rt p = (Inr v, p2) \<and> rt_cacheContextWindows rt = None"
  shows "streamChoice (functions \<noteq> [] \<and> truthyValue v) rt p messages functions noOptions
           (LMStudio_stream rt p messages functions)"
proof (cases "functions = []")
  case True
  then show ?thesis
    by (auto simp: streamChoice_def completeChoice_def chooses_def LMStudio_stream_def LMStudio_useNative_def newEffects_def emit_def)
next
  case False
  with assms(1) have pr: "LMStudio_supportsNativeToolCalling rt p = (Inr v, p2)"
    and cw: "rt_cacheContextWindows rt = None" by simp_all
  from LMStudio_probe_effects[OF pr] obtain ys where
    ys: "effects p2 = effects p @ ys" "set ys \<subseteq> insert GetModelCapabilities (range ProviderLog)"
    and m2: "p_model p2 = p_model p" by blast
  show ?thesis
    using False pr ys m2 cw
    by (auto simp: streamChoice_def completeChoice_def chooses_def LMStudio_stream_def LMStudio_useNative_def newEffects_def emit_def
          streamOutcome_def callTooledStream_def noOptions_def Let_def)
qed

lemma LMStudio_completeOnce_chooses:
  assumes "functions = [] \<or>
             LMStudio_supportsNativeToolCalling rt p = (Inr v, p2) \<and> rt_cacheContextWindows rt = None"
  shows "completeChoice (functions \<noteq> [] \<and> truthyValue v) rt p messages functions noOptions
           (LMStudio_completeOnce rt p messages functions)"
proof (cases "functions = []")
  case True
  then show ?thesis
    by (auto simp: streamChoice_def completeChoice_def chooses_def LMStudio_completeOnce_def LMStudio_useNative_def newEffects_def emit_def)
next
  case False
  with assms(1) have pr: "LMStudio_supportsNativeToolCalling rt p = (Inr v, p2)"
    and cw: "rt_cacheContextWindows rt = None" by simp_all
  from LMStudio_probe_effects[OF pr] obtain ys where
    ys: "effects p2 = effects p @ ys" "set ys \<subseteq> insert GetModelCapabilities (range ProviderLog)"
    and m2: "p_model p2 = p_model p" by blast
  show ?thesis
    using False pr ys m2 cw
    by (auto simp: streamChoice_def completeChoice_def chooses_def LMStudio_completeOnce_def LMStudio_useNative_def newEffects_def emit_def
          completeOutcome_def callTooledComplete_def noOptions_def Let_def
          split: sum.splits option.splits)
qed

lemma DockerModelRunner_stream_chooses:
  assumes "functions = [] \<or> DockerModelRunner_supportsNativeToolCalling rt p = (Inr v, p2)"
  shows "streamChoice (functions \<noteq> [] \<and> truthyValue v) rt p messages functions noOptions
           (DockerModelRunner_stream rt p messages functions)"
proof (cases "functions = []")
  case True
  then show ?thesis
    by (auto simp: streamChoice_def completeChoice_def chooses_def DockerModelRunner_stream_def DockerModelRunner_useNative_def newEffects_def emit_def)
next
  case False
  with assms(1) have pr: "DockerModelRunner_supportsNativeToolCalling rt p = (Inr v, p2)" by simp
  from DockerModelRunner_probe_effects[OF pr] obtain ys where
    ys: "effects p2 = effects p @ ys" "set ys \<subseteq> insert GetModelCapabilities (range ProviderLog)"
    and m2: "p_model p2 = p_model p" by blast
  show ?thesis
    using False pr ys m2 
    by (auto simp: streamChoice_def completeChoice_def chooses_def DockerModelRunner_stream_def DockerModelRunner_useNative_def newEffects_def emit_def
          streamOutcome_def callTooledStream_def noOptions_def Let_def)
qed

lemma DockerModelRunner_completeOnce_chooses:
  assumes "functions = [] \<or> DockerModelRunner_supportsNativeToolCalling rt p = (Inr v, p2)"
  shows "completeChoice (functions \<noteq> [] \<and> truthyValue v) rt p messages functions noOptions
           (DockerModelRunner_completeOnce rt p messages functions)"
proof (cases "functions = []")
  case True
  then show ?thesis
    by (auto simp: streamChoice_def completeChoice_def chooses_def DockerModelRunner_completeOnce_def DockerModelRunner_useNative_def newEffects_def emit_def)
next
  case False
  with assms(1) have pr: "DockerModelRunner_supportsNativeToolCalling rt p = (Inr v, p2)" by simp
  from DockerModelRunner_probe_effects[OF pr] obtain ys where
    ys: "effects p2 = effects p @ ys" "set ys \<subseteq> insert GetModelCapabilities (range ProviderLog)"
    and m2: "p_model p2 = p_model p" by blast
  show ?thesis
    using False pr ys m2 
    by (auto simp: streamChoice_def completeChoice_def chooses_def DockerModelRunner_completeOnce_def DockerModelRunner_useNative_def newEffects_def emit_def
          completeOutcome_def callTooledComplete_def noOptions_def Let_def
          split: sum.splits option.splits)
qed

lemma LocalAi_stream_chooses:
  "streamChoice (functions \<noteq> [] \<and> truthyValue (fst (LocalAi_supportsNativeToolCalling rt p)))
     rt p messages functions noOptions
     (LocalAi_stream rt p messages functions)"
proof -
  obtain v p2 where pr: "LocalAi_supportsNativeToolCalling rt p = (v, p2)"
    by (cases "LocalAi_supportsNativeToolCalling rt p")
  from LocalAi_probe_effects[OF pr] obtain ys where
    ys: "effects p2 = effects p @ ys" "set ys \<subseteq> range ProviderLog"
    and m2: "p_model p2 = p_model p" by blast
  show ?thesis
    using pr ys m2
    by (auto simp: streamChoice_def completeChoice_def chooses_def LocalAi_stream_def LocalAi_useNative_def newEffects_def emit_def
          streamOutcome_def callTooledStream_def noOptions_def)
qed

lemma LocalAi_completeOnce_chooses:
  "completeChoice (functions \<noteq> [] \<and> truthyValue (fst (LocalAi_supportsNativeToolCalling rt p)))
     rt p messages functions noOptions
     (LocalAi_completeOnce rt p messages functions)"
proof -
  obtain v p2 where pr: "LocalAi_supportsNativeToolCalling rt p = (v, p2)"
    by (cases "LocalAi_supportsNativeToolCalling rt p")
  from LocalAi_probe_effects[OF pr] obtain ys where
    ys: "effects p2 = effects p @ ys" "set ys \<subseteq> range ProviderLog"
    and m2: "p_model p2 = p_model p" by blast
  show ?thesis
    using pr ys m2
    by (auto simp: streamChoice_def completeChoice_def chooses_def LocalAi_completeOnce_def LocalAi_useNative_def newEffects_def emit_def
          completeOutcome_def callTooledComplete_def noOptions_def split: sum.splits option.splits)
qed

lemma GenericOpenAi_stream_chooses:
  "streamChoice (functions \<noteq> [] \<and> truthyValue (fst (GenericOpenAi_supportsNativeToolCalling rt p)))
     rt p messages functions noOptions
     (GenericOpenAi_stream rt p messages functions)"
proof -
  obtain v p2 where pr: "GenericOpenAi_supportsNativeToolCalling rt p = (v, p2)"
    by (cases "GenericOpenAi_supportsNativeToolCalling rt p")
  from GenericOpenAi_probe_effects[OF pr] obtain ys where
    ys: "effects p2 = effects p @ ys" "set ys \<subseteq> range ProviderLog"
    and m2: "p_model p2 = p_model p" by blast
  show ?thesis
    using pr ys m2
    by (auto simp: streamChoice_def completeChoice_def chooses_def GenericOpenAi_stream_def GenericOpenAi_useNative_def newEffects_def emit_def
          streamOutcome_def callTooledStream_def noOptions_def)
qed

lemma GenericOpenAi_completeOnce_chooses:
  "completeChoice (functions \<noteq> [] \<and> truthyValue (fst (GenericOpenAi_supportsNativeToolCalling rt p)))
     rt p messages functions noOptions
     (GenericOpenAi_completeOnce rt p messages functions)"
proof -
  obtain v p2 where pr: "GenericOpenAi_supportsNativeToolCalling rt p = (v, p2)"
    by (cases "GenericOpenAi_supportsNativeToolCalling rt p")
  from GenericOpenAi_probe_effects[OF pr] obtain ys where
    ys: "effects p2 = effects p @ ys" "set ys \<subseteq> range ProviderLog"
    and m2: "p_model p2 = p_model p" by blast
  show ?thesis
    using pr ys m2
    by (auto simp: streamChoice_def completeChoice_def chooses_def GenericOpenAi_completeOnce_def GenericOpenAi_useNative_def newEffects_def emit_def
          completeOutcome_def callTooledComplete_def noOptions_def split: sum.splits option.splits)
qed

lemma OpenRouter_stream_chooses:
  "streamChoice (functions \<noteq> [] \<and> truthyValue (fst (OpenRouter_supportsNativeToolCalling rt p)))
     rt p messages functions noOptions
     (OpenRouter_stream rt p messages functions)"
proof -
  obtain v p2 where pr: "OpenRouter_supportsNativeToolCalling rt p = (v, p2)"
    by (cases "OpenRouter_supportsNativeToolCalling rt p")
  from OpenRouter_probe_effects[OF pr] obtain ys where
    ys: "effects p2 = effects p @ ys" "set ys \<subseteq> range ProviderLog"
    and m2: "p_model p2 = p_model p" by blast
  show ?thesis
    using pr ys m2
    by (auto simp: streamChoice_def completeChoice_def chooses_def OpenRouter_stream_def OpenRouter_useNative_def newEffects_def emit_def
          streamOutcome_def callTooledStream_def noOptions_def)
qed

lemma OpenRouter_completeOnce_chooses:
  "completeChoice (functions \<noteq> [] \<and> truthyValue (fst (OpenRouter_supportsNativeToolCalling rt p)))
     rt p messages functions noOptions
     (OpenRouter_completeOnce rt p messages functions)"
proof -
  obtain v p2 where pr: "OpenRouter_supportsNativeToolCalling rt p = (v, p2)"
    by (cases "OpenRouter_supportsNativeToolCalling rt p")
  from OpenRouter_probe_effects[OF pr] obtain ys where
    ys: "effects p2 = effects p @ ys" "set ys \<subseteq> range ProviderLog"
    and m2: "p_model p2 = p_model p" by blast
  show ?thesis
    using pr ys m2
    by (auto simp: streamChoice_def completeChoice_def chooses_def OpenRouter_completeOnce_def OpenRouter_useNative_def newEffects_def emit_def
          completeOutcome_def callTooledComplete_def noOptions_def split: sum.splits option.splits)
qed

lemma DeepSeek_stream_chooses:
  "streamChoice (functions \<noteq> [] \<and> truthyValue DeepSeek_supportsNativeToolCalling)
     rt p messages functions (DeepSeek_tooledOptions p)
     (DeepSeek_stream rt p messages functions)"
  by (auto simp: streamChoice_def completeChoice_def chooses_def DeepSeek_stream_def DeepSeek_useNative_def newEffects_def emit_def
        streamOutcome_def callTooledStream_def DeepSeek_supportsNativeToolCalling_def)

lemma DeepSeek_completeOnce_chooses:
  "completeChoice (functions \<noteq> [] \<and> truthyValue DeepSeek_supportsNativeToolCalling)
     rt p messages functions (DeepSeek_tooledOptions p)
     (DeepSeek_completeOnce rt p messages functions)"
  by (auto simp: streamChoice_def completeChoice_def chooses_def DeepSeek_completeOnce_def DeepSeek_useNative_def newEffects_def emit_def
        completeOutcome_def callTooledComplete_def DeepSeek_supportsNativeToolCalling_def
        split: sum.splits option.splits)

text \<open>
  Claim C6. In each adapter that calls \<^verbatim>\<open>tooledStream\<close> and \<^verbatim>\<open>tooledComplete\<close> behind
  \<^verbatim>\<open>useNative = functions.length > 0 && supportsNativeToolCalling()\<close> (\<^verbatim>\<open>LemonadeProvider\<close>,
  \<^verbatim>\<open>LMStudioProvider\<close>, \<^verbatim>\<open>DockerModelRunnerProvider\<close>, \<^verbatim>\<open>LocalAiProvider\<close>,
  \<^verbatim>\<open>GenericOpenAiProvider\<close>, \<^verbatim>\<open>OpenRouterProvider\<close>, \<^verbatim>\<open>DeepSeekProvider\<close>), an invocation of
  \<^verbatim>\<open>stream\<close> and an invocation of \<^verbatim>\<open>complete\<close> take the native path if and only if the list of
  functions is not empty and the probe resolves to a truthy value: then the native driver
  is called, the prompt based driver is not, and the result is what the adapter makes of
  the outcome of the native driver; otherwise the prompt based driver is called, the
  native driver is not, and the result is the result of the prompt based driver. With
  an empty list the probe is not awaited. In \<^verbatim>\<open>LemonadeProvider\<close> the model has loaded; in
  \<^verbatim>\<open>LMStudioProvider\<close> \<^verbatim>\<open>cacheContextWindows\<close>, awaited on the native path before the driver,
  does not throw.
\<close>

theorem native_path_iff_functions_and_probe:
  "(Lemonade_preloadModel rt p = (None, p1)
      \<and> (functions = [] \<or> Lemonade_supportsNativeToolCalling rt p1 = (Inr v, p2))
    \<longrightarrow> streamChoice (functions \<noteq> [] \<and> truthyValue v) rt p messages functions noOptions
          (Lemonade_stream rt p messages functions)
      \<and> completeChoice (functions \<noteq> [] \<and> truthyValue v) rt p messages functions noOptions
          (Lemonade_completeOnce rt p messages functions))
   \<and> (functions = [] \<or>
        LMStudio_supportsNativeToolCalling rt p = (Inr v, p2) \<and> rt_cacheContextWindows rt = None
    \<longrightarrow> streamChoice (functions \<noteq> [] \<and> truthyValue v) rt p messages functions noOptions
          (LMStudio_stream rt p messages functions)
      \<and> completeChoice (functions \<noteq> [] \<and> truthyValue v) rt p messages functions noOptions
          (LMStudio_completeOnce rt p messages functions))
   \<and> (functions = [] \<or> DockerModelRunner_supportsNativeToolCalling rt p = (Inr v, p2)
    \<longrightarrow> streamChoice (functions \<noteq> [] \<and> truthyValue v) rt p messages functions noOptions
          (DockerModelRunner_stream rt p messages functions)
      \<and> completeChoice (functions \<noteq> [] \<and> truthyValue v) rt p messages functions noOptions
          (DockerModelRunner_completeOnce rt p messages functions))
   \<and> streamChoice (functions \<noteq> [] \<and> truthyValue (fst (LocalAi_supportsNativeToolCalling rt p)))
        rt p messages functions noOptions (LocalAi_stream rt p messages functions)
   \<and> completeChoice (functions \<noteq> [] \<and> truthyValue (fst (LocalAi_supportsNativeToolCalling rt p)))
        rt p messages functions noOptions (LocalAi_completeOnce rt p messages functions)
   \<and> streamChoice (functions \<noteq> [] \<and> truthyValue (fst (GenericOpenAi_supportsNativeToolCalling rt p)))
        rt p messages functions noOptions (GenericOpenAi_stream rt p messages functions)
   \<and> completeChoice (functions \<noteq> [] \<and> truthyValue (fst (GenericOpenAi_supportsNativeToolCalling rt p)))
        rt p messages functions noOptions (GenericOpenAi_completeOnce rt p messages functions)
   \<and> streamChoice (functions \<noteq> [] \<and> truthyValue (fst (OpenRouter_supportsNativeToolCalling rt p)))
        rt p messages functions noOptions (OpenRouter_stream rt p messages functions)
   \<and> completeChoice (functions \<noteq> [] \<and> truthyValue (fst (OpenRouter_supportsNativeToolCalling rt p)))
        rt p messages functions noOptions (OpenRouter_completeOnce rt p messages functions)
   \<and> streamChoice (functions \<noteq> [] \<and> truthyValue DeepSeek_supportsNativeToolCalling)
        rt p messages functions (DeepSeek_tooledOptions p) (DeepSeek_stream rt p messages functions)
   \<and> completeChoice (functions \<noteq> [] \<and> truthyValue DeepSeek_supportsNativeToolCalling)
        rt p messages functions (DeepSeek_tooledOptions p) (DeepSeek_completeOnce rt p messages functions)"
proof -
  have lem: "Lemonade_preloadModel rt p = (None, p1)
      \<and> (functions = [] \<or> Lemonade_supportsNativeToolCalling rt p1 = (Inr v, p2))
    \<longrightarrow> streamChoice (functions \<noteq> [] \<and> truthyValue v) rt p messages functions noOptions
          (Lemonade_stream rt p messages functions)
      \<and> completeChoice (functions \<noteq> [] \<and> truthyValue v) rt p messages functions noOptions
          (Lemonade_completeOnce rt p messages functions)"
    by (intro impI conjI, elim conjE, rule Lemonade_stream_chooses, assumption, assumption,
        elim conjE, rule Lemonade_completeOnce_chooses, assumption, assumption)
  have lms: "functions = [] \<or>
        LMStudio_supportsNativeToolCalling rt p = (Inr v, p2) \<and> rt_cacheContextWindows rt = None
    \<longrightarrow> streamChoice (functions \<noteq> [] \<and> truthyValue v) rt p messages functions noOptions
          (LMStudio_stream rt p messages functions)
      \<and> completeChoice (functions \<noteq> [] \<and> truthyValue v) rt p messages functions noOptions
          (LMStudio_completeOnce rt p messages functions)"
    by (intro impI conjI, rule LMStudio_stream_chooses, assumption,
        rule LMStudio_completeOnce_chooses, assumption)
  have dmr: "functions = [] \<or> DockerModelRunner_supportsNativeToolCalling rt p = (Inr v, p2)
    \<longrightarrow> streamChoice (functions \<noteq> [] \<and> truthyValue v) rt p messages functions noOptions
          (DockerModelRunner_stream rt p messages functions)
      \<and> completeChoice (functions \<noteq> [] \<and> truthyValue v) rt p messages functions noOptions
          (DockerModelRunner_completeOnce rt p messages functions)"
    by (intro impI conjI, rule DockerModelRunner_stream_chooses, assumption,
        rule DockerModelRunner_completeOnce_chooses, assumption)
  show ?thesis
    by (intro conjI lem lms dmr LocalAi_stream_chooses LocalAi_completeOnce_chooses
          GenericOpenAi_stream_chooses GenericOpenAi_completeOnce_chooses
          OpenRouter_stream_chooses OpenRouter_completeOnce_chooses
          DeepSeek_stream_chooses DeepSeek_completeOnce_chooses)
qed

text \<open>
  Claim C6, \<^verbatim>\<open>AzureOpenAiProvider\<close>: it has no probe and no prompt based driver, and
  calls \<^verbatim>\<open>tooledStream\<close> also when the list of functions is empty.
\<close>

theorem Azure_native_path_without_functions:
  "Azure_stream (exampleRuntime (\<lambda>req. Inr []) alwaysMalformed (Some ''azure'') JsTrue)
      newProvider [userHi] [] =
     (Inr (\<lparr>textResponse = Some [], functionCall = None, retryWithError = None, cost = None\<rparr>, []),
      \<lparr>p_model = ''model'', preloaded = False, supportsToolCalling = None,
       effects = [ProviderLog ''Provider.stream - will process this chat completion.'',
                  CallTooledStream]\<rparr>)"
  by code_simp

text \<open>
  Claim C6 on examples: \<^verbatim>\<open>LemonadeProvider.stream\<close> with a tool and the capability
  enabled returns the result of the native driver, and with no tool the result of the
  prompt based driver; \<^verbatim>\<open>LMStudioProvider.complete\<close> with a tool and a model without the
  capability returns the result of the prompt based driver;
  \<^verbatim>\<open>DockerModelRunnerProvider.stream\<close> and \<^verbatim>\<open>OpenRouterProvider.complete\<close> with a tool and the
  capability call the native driver.
\<close>

theorem native_path_iff_functions_and_probe_example:
  "fst (Lemonade_stream (exampleRuntime (\<lambda>req. Inr []) alwaysMalformed (Some ''lemonade'') JsFalse)
          newProvider [userHi] [searchFn]) =
     Inr (\<lparr>textResponse = Some [], functionCall = None, retryWithError = None, cost = None\<rparr>, [])
   \<and> CallTooledStream \<in> set (effects (snd (Lemonade_stream
         (exampleRuntime (\<lambda>req. Inr []) alwaysMalformed (Some ''lemonade'') JsFalse)
         newProvider [userHi] [searchFn])))
   \<and> fst (Lemonade_stream (exampleRuntime (\<lambda>req. Inr []) alwaysMalformed (Some ''lemonade'') JsFalse)
          newProvider [userHi] []) = Inr (untooledAnswer, [])
   \<and> CallTooledStream \<notin> set (effects (snd (Lemonade_stream
         (exampleRuntime (\<lambda>req. Inr []) alwaysMalformed (Some ''lemonade'') JsFalse)
         newProvider [userHi] [])))
   \<and> fst (LMStudio_completeOnce (exampleRuntime (\<lambda>req. Inr []) textOnlyBackend None JsFalse)
          newProvider [userHi] [searchFn]) = Return (Inr untooledAnswer)
   \<and> CallTooledComplete \<notin> set (effects (snd (LMStudio_completeOnce
         (exampleRuntime (\<lambda>req. Inr []) textOnlyBackend None JsFalse) newProvider [userHi] [searchFn])))
   \<and> CallTooledComplete \<in> set (effects (snd (OpenRouter_completeOnce
         (exampleRuntime (\<lambda>req. Inr []) alwaysMalformed (Some ''openrouter,lemonade'') JsFalse)
         newProvider [userHi] [searchFn])))
   \<and> CallTooledStream \<in> set (effects (snd (DockerModelRunner_stream
         (exampleRuntime (\<lambda>req. Inr []) alwaysMalformed None JsTrue) newProvider [userHi] [searchFn])))"
proof -
  let ?rt4 = "exampleRuntime (\<lambda>req. Inr []) alwaysMalformed None JsTrue"
  let ?q4 = "\<lparr>p_model = ''model'', preloaded = False, supportsToolCalling = Some JsTrue,
             effects = [GetModelCapabilities]\<rparr>"
  let ?rt = "exampleRuntime (\<lambda>req. Inr []) alwaysMalformed (Some ''lemonade'') JsFalse"
  let ?rt2 = "exampleRuntime (\<lambda>req. Inr []) textOnlyBackend None JsFalse"
  let ?rt3 = "exampleRuntime (\<lambda>req. Inr []) alwaysMalformed (Some ''openrouter,lemonade'') JsFalse"
  let ?p1 = "\<lparr>p_model = ''model'', preloaded = True, supportsToolCalling = None,
             effects = [LoadModel]\<rparr>"
  let ?p2 = "\<lparr>p_model = ''model'', preloaded = True, supportsToolCalling = Some JsTrue,
             effects = [LoadModel,
                        ProviderLog ''Lemonade supports native tool calling is ENABLED via ENV.'']\<rparr>"
  let ?q2 = "\<lparr>p_model = ''model'', preloaded = False, supportsToolCalling = Some JsFalse,
             effects = [GetModelCapabilities]\<rparr>"
  have e: "newEffects newProvider = effects"
    by (rule ext) (simp add: newEffects_def newProvider_def)
  have h1: "Lemonade_preloadModel ?rt newProvider = (None, ?p1)" by code_simp
  have h2: "Lemonade_supportsNativeToolCalling ?rt ?p1 = (Inr JsTrue, ?p2)" by code_simp
  have h3: "LMStudio_supportsNativeToolCalling ?rt2 newProvider = (Inr JsFalse, ?q2)
            \<and> rt_cacheContextWindows ?rt2 = None" by code_simp
  have n: "streamOutcome (callTooledStream ?rt newProvider [userHi] [searchFn] noOptions) =
     Inr (\<lparr>textResponse = Some [], functionCall = None, retryWithError = None, cost = None\<rparr>, [])"
    by code_simp
  have u: "rt_UnTooled_stream ?rt [userHi] [] = Inr (untooledAnswer, [])"
    by (simp add: exampleRuntime_def)
  have u2: "rt_UnTooled_complete ?rt2 [userHi] [searchFn] = Inr untooledAnswer"
    by (simp add: exampleRuntime_def)
  have v3: "truthyValue (fst (OpenRouter_supportsNativeToolCalling ?rt3 newProvider))" by code_simp
  have a: "fst (Lemonade_stream ?rt newProvider [userHi] [searchFn]) =
             Inr (\<lparr>textResponse = Some [], functionCall = None, retryWithError = None, cost = None\<rparr>, [])
           \<and> CallTooledStream \<in> set (effects (snd (Lemonade_stream ?rt newProvider [userHi] [searchFn])))"
    using native_path_iff_functions_and_probe[of ?rt newProvider ?p1 "[searchFn]" JsTrue ?p2 "[userHi]"]
      h1 h2 n
    by (auto simp: streamChoice_def chooses_def e split: prod.splits)
  have b: "fst (Lemonade_stream ?rt newProvider [userHi] []) = Inr (untooledAnswer, [])
           \<and> CallTooledStream \<notin> set (effects (snd (Lemonade_stream ?rt newProvider [userHi] [])))"
    using native_path_iff_functions_and_probe[of ?rt newProvider ?p1 "[]" JsTrue ?p2 "[userHi]"]
      h1 u
    by (auto simp: streamChoice_def chooses_def e split: prod.splits)
  have c: "fst (LMStudio_completeOnce ?rt2 newProvider [userHi] [searchFn]) = Return (Inr untooledAnswer)
           \<and> CallTooledComplete \<notin> set (effects (snd (LMStudio_completeOnce ?rt2 newProvider [userHi] [searchFn])))"
    using native_path_iff_functions_and_probe[of ?rt2 newProvider ?p1 "[searchFn]" JsFalse ?q2 "[userHi]"]
      h3 u2
    by (auto simp: completeChoice_def chooses_def e split: prod.splits)
  have d: "CallTooledComplete \<in> set (effects (snd (OpenRouter_completeOnce ?rt3 newProvider [userHi] [searchFn])))"
    using native_path_iff_functions_and_probe[of ?rt3 newProvider ?p1 "[searchFn]" JsFalse ?q2 "[userHi]"]
      v3
    by (auto simp: completeChoice_def chooses_def e split: prod.splits)
  have h4: "DockerModelRunner_supportsNativeToolCalling ?rt4 newProvider = (Inr JsTrue, ?q4)"
    by code_simp
  have d4: "CallTooledStream \<in> set (effects (snd (DockerModelRunner_stream ?rt4 newProvider [userHi] [searchFn])))"
    using native_path_iff_functions_and_probe[of ?rt4 newProvider ?p1 "[searchFn]" JsTrue ?q4 "[userHi]"]
      h4
    by (auto simp: streamChoice_def chooses_def e split: prod.splits)
  show ?thesis using a b c d d4 by blast
qed

section \<open>The capability probe\<close>







section \<open>The history\<close>

lemma formatMessage_step:
  "formatMessage stringify v4 opts msg (acc, n) =
     (acc @ expansion stringify v4 opts n (needsAssistantCall acc) msg, n + freshIds [msg])"
  by (auto simp: formatMessage_def expansion_def functionCallId_def freshIds_def
        split: option.splits)

lemma needs_after_expansion:
  "needsAssistantCall (acc @ expansion stringify v4 opts n b msg) = (\<not> hasToolCalls msg)"
  by (auto simp: needsAssistantCall_def expansion_def hasToolCalls_def toolResultMessage_def
        assistantCallMessage_def split: option.splits)

lemma formatMessagesLoop_expandAll:
  "formatMessagesLoop stringify v4 opts ms (acc, n) =
     (acc @ expandAll stringify v4 opts n (needsAssistantCall acc) ms, n + freshIds ms)"
proof (induction ms arbitrary: acc n)
  case Nil
  show ?case by (simp add: freshIds_def)
next
  case (Cons msg ms)
  have f: "freshIds (msg # ms) = freshIds [msg] + freshIds ms" by (simp add: freshIds_def)
  show ?case
    by (simp add: formatMessage_step Cons.IH needs_after_expansion f)
qed

lemma formatMessagesForTools_expandAll:
  "formatMessagesForTools stringify v4 n ms opts = expandAll stringify v4 opts n True ms"
  by (simp add: formatMessagesForTools_def formatMessagesLoop_expandAll needsAssistantCall_def)

lemma freshIds_append: "freshIds (xs @ ys) = freshIds xs + freshIds ys"
  by (simp add: freshIds_def)

lemma expandAll_append:
  "expandAll stringify v4 opts n b (xs @ ys) =
     expandAll stringify v4 opts n b xs @
     expandAll stringify v4 opts (n + freshIds xs) (if xs = [] then b else \<not> hasToolCalls (last xs)) ys"
proof (induction xs arbitrary: n b)
  case Nil
  show ?case by (simp add: freshIds_def)
next
  case (Cons x xs)
  have "freshIds (x # xs) = freshIds [x] + freshIds xs" by (simp add: freshIds_def)
  then show ?case by (simp add: Cons.IH add.assoc)
qed


lemma expansion_function_id:
  assumes "role msg = ''function''" and "originalFunctionCall msg = Some ofc"
    and "ofc_id ofc = Some i" and "i \<noteq> []"
  shows "expansion stringify v4 opts n b msg =
           (if b then [assistantCallMessage opts i (Some (ofc_name ofc))
                         (stringOrStringify stringify (ofc_arguments ofc))] else [])
           @ [toolResultMessage stringify i (content msg)]"
    and "freshIds [msg] = 0" and "\<not> hasToolCalls msg" and "functionCallId msg = Some i"
  using assms by (simp_all add: expansion_def functionCallId_def freshIds_def hasToolCalls_def)

lemma expansion_other:
  assumes "role msg \<noteq> ''function''"
  shows "expansion stringify v4 opts n b msg =
           [if injectReasoningContent opts \<and> role msg = ''assistant'' \<and> reasoning_content msg = None
            then msg\<lparr>reasoning_content := Some []\<rparr> else msg]"
    and "freshIds [msg] = 0"
  using assms by (simp_all add: expansion_def freshIds_def)

lemma carriesCall_last_expandAll:
  assumes "pre \<noteq> []" and "carriesCall i (last pre)"
  shows "expandAll stringify v4 opts n b pre \<noteq> [] \<and>
         carriesCall i (last (expandAll stringify v4 opts n b pre))"
proof -
  have r: "role (last pre) \<noteq> ''function''" using assms(2) by (simp add: carriesCall_def)
  have "pre = butlast pre @ [last pre]" using assms(1) by simp
  then have "expandAll stringify v4 opts n b pre =
      expandAll stringify v4 opts n b (butlast pre) @
      expandAll stringify v4 opts (n + freshIds (butlast pre))
        (if butlast pre = [] then b else \<not> hasToolCalls (last (butlast pre))) [last pre]"
    using expandAll_append[of stringify v4 opts n b "butlast pre" "[last pre]"] by simp
  then show ?thesis
    using assms(2) by (simp add: expansion_other[OF r] carriesCall_def)
qed

lemma split_at:
  "formatMessagesForTools stringify v4 n0 (pre @ msg # post) opts =
     formatMessagesForTools stringify v4 n0 pre opts @
     expansion stringify v4 opts (n0 + freshIds pre) (pre = [] \<or> \<not> hasToolCalls (last pre)) msg @
     expandAll stringify v4 opts (n0 + freshIds pre + freshIds [msg]) (\<not> hasToolCalls msg) post"
proof -
  have "(if pre = [] then True else \<not> hasToolCalls (last pre)) = (pre = [] \<or> \<not> hasToolCalls (last pre))"
    by simp
  then show ?thesis
    by (simp add: formatMessagesForTools_expandAll expandAll_append)
qed

lemma count_results_expansion:
  assumes "\<forall>k. ''call_'' @ v4 k \<noteq> i"
  shows "length (filter (resultFor i) (expansion stringify v4 opts n b msg)) =
           (if functionCallId msg = Some i then 1 else 0) + (if resultFor i msg then 1 else 0)"
  using assms
  by (auto simp: expansion_def resultFor_def assistantCallMessage_def toolResultMessage_def
        functionCallId_def split: option.splits)

lemma count_results_expandAll:
  assumes "\<forall>k. ''call_'' @ v4 k \<noteq> i"
  shows "length (filter (resultFor i) (expandAll stringify v4 opts n b ms)) =
           length (filter (\<lambda>m. functionCallId m = Some i) ms) + length (filter (resultFor i) ms)"
proof (induction ms arbitrary: n b)
  case Nil
  show ?case by simp
next
  case (Cons msg ms)
  show ?case
    by (simp add: count_results_expansion[OF assms] Cons.IH)
qed

lemma count_calls_expansion:
  assumes "\<forall>k. ''call_'' @ v4 k \<noteq> i"
  shows "length (filter (carriesCall i) (expansion stringify v4 opts n b msg)) =
           (if functionCallId msg = Some i \<and> b then 1 else 0) + (if carriesCall i msg then 1 else 0)"
  using assms
  by (auto simp: expansion_def carriesCall_def assistantCallMessage_def toolResultMessage_def
        functionCallId_def split: option.splits)

lemma count_calls_expandAll:
  assumes "\<forall>k. ''call_'' @ v4 k \<noteq> i"
  shows "length (filter (carriesCall i) (expandAll stringify v4 opts n b ms)) =
           synthesized i b ms + length (filter (carriesCall i) ms)"
proof (induction ms arbitrary: n b)
  case Nil
  show ?case by simp
next
  case (Cons msg ms)
  show ?case
    by (simp add: count_calls_expansion[OF assms] Cons.IH)
qed

lemma synthesized_none:
  "filter (\<lambda>m. functionCallId m = Some i) ms = [] \<Longrightarrow> synthesized i b ms = 0"
proof (induction ms arbitrary: b)
  case Nil
  show ?case by simp
next
  case (Cons msg ms)
  from Cons.prems have a: "functionCallId msg \<noteq> Some i"
    and r: "filter (\<lambda>m. functionCallId m = Some i) ms = []"
    by (simp_all split: if_splits)
  show ?case by (simp add: a Cons.IH[OF r])
qed

lemma synthesized_append:
  "synthesized i b (xs @ ys) =
     synthesized i b xs + synthesized i (if xs = [] then b else \<not> hasToolCalls (last xs)) ys"
  by (induction xs arbitrary: b) simp_all


text \<open>
  Claim C2, as amended. A history is split at one of its messages. A \<^verbatim>\<open>function\<close>
  message whose \<^verbatim>\<open>originalFunctionCall\<close> has a non-empty identifier is replaced, where it
  stands, by one tool result referring to the identifier, and that follows one assistant
  message carrying a call with the identifier: an assistant message built from
  \<^verbatim>\<open>originalFunctionCall\<close> when the message just before is not an assistant message with
  tool calls, and the message just before itself when it already carries a call with
  the identifier. What precedes and what follows is formatted as it is on its own.
  Another message stays where it is, unchanged unless \<^verbatim>\<open>injectReasoningContent\<close> is set and
  it is an assistant message without \<^verbatim>\<open>reasoning_content\<close>, which then gets an empty one;
  what follows it is formatted as in the history that starts with it. When the history
  has no other \<^verbatim>\<open>function\<close> message with the identifier, no tool message referring to it
  and no assistant message carrying it other than the one just before, and no
  identifier drawn from \<^verbatim>\<open>v4()\<close> equals it, the output has exactly one assistant message
  carrying the identifier and exactly one tool result referring to it. The statement
  leaves out a \<^verbatim>\<open>function\<close> message that follows an assistant message whose tool calls
  do not include its identifier.
\<close>

theorem formatMessagesForTools_expands_in_place:
  assumes "messages = pre @ msg # post"
  shows "(role msg = ''function'' \<and> originalFunctionCall msg = Some ofc \<and> ofc_id ofc = Some i \<and> i \<noteq> []
            \<and> \<not> afterCall i pre \<and> \<not> afterForeignCall i pre
          \<longrightarrow> formatMessagesForTools stringify v4 n0 messages opts =
                formatMessagesForTools stringify v4 n0 pre opts @
                [assistantCallMessage opts i (Some (ofc_name ofc))
                   (stringOrStringify stringify (ofc_arguments ofc)),
                 toolResultMessage stringify i (content msg)] @
                formatMessagesForTools stringify v4 (n0 + freshIds pre) post opts)
       \<and> (role msg = ''function'' \<and> originalFunctionCall msg = Some ofc \<and> ofc_id ofc = Some i \<and> i \<noteq> []
            \<and> afterCall i pre
          \<longrightarrow> formatMessagesForTools stringify v4 n0 messages opts =
                formatMessagesForTools stringify v4 n0 pre opts @
                [toolResultMessage stringify i (content msg)] @
                formatMessagesForTools stringify v4 (n0 + freshIds pre) post opts
              \<and> formatMessagesForTools stringify v4 n0 pre opts \<noteq> []
              \<and> carriesCall i (last (formatMessagesForTools stringify v4 n0 pre opts)))
       \<and> (role msg \<noteq> ''function''
          \<longrightarrow> formatMessagesForTools stringify v4 n0 messages opts =
                formatMessagesForTools stringify v4 n0 pre opts @
                [if injectReasoningContent opts \<and> role msg = ''assistant'' \<and> reasoning_content msg = None
                 then msg\<lparr>reasoning_content := Some []\<rparr> else msg] @
                tl (formatMessagesForTools stringify v4 (n0 + freshIds pre) (msg # post) opts))
       \<and> (functionCallId msg = Some i \<and> \<not> afterForeignCall i pre
            \<and> (\<forall>k. ''call_'' @ v4 k \<noteq> i)
            \<and> filter (\<lambda>m. functionCallId m = Some i) (pre @ post) = []
            \<and> filter (resultFor i) messages = []
            \<and> length (filter (carriesCall i) messages) = (if afterCall i pre then 1 else 0)
          \<longrightarrow> length (filter (carriesCall i) (formatMessagesForTools stringify v4 n0 messages opts)) = 1
            \<and> length (filter (resultFor i) (formatMessagesForTools stringify v4 n0 messages opts)) = 1)"
proof -
  note split = split_at[of stringify v4 n0 pre msg post opts]
  have a: "role msg = ''function'' \<and> originalFunctionCall msg = Some ofc \<and> ofc_id ofc = Some i \<and> i \<noteq> []
            \<and> \<not> afterCall i pre \<and> \<not> afterForeignCall i pre
          \<longrightarrow> formatMessagesForTools stringify v4 n0 messages opts =
                formatMessagesForTools stringify v4 n0 pre opts @
                [assistantCallMessage opts i (Some (ofc_name ofc))
                   (stringOrStringify stringify (ofc_arguments ofc)),
                 toolResultMessage stringify i (content msg)] @
                formatMessagesForTools stringify v4 (n0 + freshIds pre) post opts"
  proof (intro impI, elim conjE)
    assume f: "role msg = ''function''" "originalFunctionCall msg = Some ofc" "ofc_id ofc = Some i" "i \<noteq> []"
      and n: "\<not> afterCall i pre" "\<not> afterForeignCall i pre"
    from n have b: "pre = [] \<or> \<not> hasToolCalls (last pre)"
      by (auto simp: afterCall_def afterForeignCall_def)
    show "formatMessagesForTools stringify v4 n0 messages opts =
                formatMessagesForTools stringify v4 n0 pre opts @
                [assistantCallMessage opts i (Some (ofc_name ofc))
                   (stringOrStringify stringify (ofc_arguments ofc)),
                 toolResultMessage stringify i (content msg)] @
                formatMessagesForTools stringify v4 (n0 + freshIds pre) post opts"
      using split b
      by (simp add: assms expansion_function_id[OF f] formatMessagesForTools_expandAll)
  qed
  have b: "role msg = ''function'' \<and> originalFunctionCall msg = Some ofc \<and> ofc_id ofc = Some i \<and> i \<noteq> []
            \<and> afterCall i pre
          \<longrightarrow> formatMessagesForTools stringify v4 n0 messages opts =
                formatMessagesForTools stringify v4 n0 pre opts @
                [toolResultMessage stringify i (content msg)] @
                formatMessagesForTools stringify v4 (n0 + freshIds pre) post opts
              \<and> formatMessagesForTools stringify v4 n0 pre opts \<noteq> []
              \<and> carriesCall i (last (formatMessagesForTools stringify v4 n0 pre opts))"
  proof (intro impI, elim conjE)
    assume f: "role msg = ''function''" "originalFunctionCall msg = Some ofc" "ofc_id ofc = Some i" "i \<noteq> []"
      and n: "afterCall i pre"
    from n have p: "pre \<noteq> []" and c: "carriesCall i (last pre)" by (simp_all add: afterCall_def)
    from c have h: "hasToolCalls (last pre)"
      by (auto simp: carriesCall_def hasToolCalls_def split: option.splits)
    have e: "formatMessagesForTools stringify v4 n0 messages opts =
                formatMessagesForTools stringify v4 n0 pre opts @
                [toolResultMessage stringify i (content msg)] @
                formatMessagesForTools stringify v4 (n0 + freshIds pre) post opts"
      using split p h
      by (simp add: assms expansion_function_id[OF f] formatMessagesForTools_expandAll)
    show "formatMessagesForTools stringify v4 n0 messages opts =
                formatMessagesForTools stringify v4 n0 pre opts @
                [toolResultMessage stringify i (content msg)] @
                formatMessagesForTools stringify v4 (n0 + freshIds pre) post opts
              \<and> formatMessagesForTools stringify v4 n0 pre opts \<noteq> []
              \<and> carriesCall i (last (formatMessagesForTools stringify v4 n0 pre opts))"
      using e carriesCall_last_expandAll[OF p c, of stringify v4 opts n0 True]
      by (simp add: formatMessagesForTools_expandAll)
  qed
  have c: "role msg \<noteq> ''function''
          \<longrightarrow> formatMessagesForTools stringify v4 n0 messages opts =
                formatMessagesForTools stringify v4 n0 pre opts @
                [if injectReasoningContent opts \<and> role msg = ''assistant'' \<and> reasoning_content msg = None
                 then msg\<lparr>reasoning_content := Some []\<rparr> else msg] @
                tl (formatMessagesForTools stringify v4 (n0 + freshIds pre) (msg # post) opts)"
  proof
    assume r: "role msg \<noteq> ''function''"
    have t: "tl (formatMessagesForTools stringify v4 (n0 + freshIds pre) (msg # post) opts) =
               expandAll stringify v4 opts (n0 + freshIds pre) (\<not> hasToolCalls msg) post"
      by (simp add: formatMessagesForTools_expandAll expansion_other[OF r])
    show "formatMessagesForTools stringify v4 n0 messages opts =
                formatMessagesForTools stringify v4 n0 pre opts @
                [if injectReasoningContent opts \<and> role msg = ''assistant'' \<and> reasoning_content msg = None
                 then msg\<lparr>reasoning_content := Some []\<rparr> else msg] @
                tl (formatMessagesForTools stringify v4 (n0 + freshIds pre) (msg # post) opts)"
      using split by (simp only: t assms expansion_other[OF r] add_0_right)
  qed
  have d: "functionCallId msg = Some i \<and> \<not> afterForeignCall i pre
            \<and> (\<forall>k. ''call_'' @ v4 k \<noteq> i)
            \<and> filter (\<lambda>m. functionCallId m = Some i) (pre @ post) = []
            \<and> filter (resultFor i) messages = []
            \<and> length (filter (carriesCall i) messages) = (if afterCall i pre then 1 else 0)
          \<longrightarrow> length (filter (carriesCall i) (formatMessagesForTools stringify v4 n0 messages opts)) = 1
            \<and> length (filter (resultFor i) (formatMessagesForTools stringify v4 n0 messages opts)) = 1"
  proof (intro impI, elim conjE)
    assume f: "functionCallId msg = Some i" and n: "\<not> afterForeignCall i pre"
      and v: "\<forall>k. ''call_'' @ v4 k \<noteq> i"
      and o: "filter (\<lambda>m. functionCallId m = Some i) (pre @ post) = []"
      and r: "filter (resultFor i) messages = []"
      and k: "length (filter (carriesCall i) messages) = (if afterCall i pre then 1 else 0)"
    from o have opre: "filter (\<lambda>m. functionCallId m = Some i) pre = []"
      and opost: "filter (\<lambda>m. functionCallId m = Some i) post = []"
      by simp_all
    have one: "length (filter (\<lambda>m. functionCallId m = Some i) messages) = 1"
      by (simp add: assms opre opost f)
    have res: "length (filter (resultFor i) (formatMessagesForTools stringify v4 n0 messages opts)) = 1"
      by (simp add: formatMessagesForTools_expandAll count_results_expandAll[OF v] one r)
    have ac: "afterCall i pre = (\<not> (pre = [] \<or> \<not> hasToolCalls (last pre)))"
      using n by (auto simp: afterCall_def afterForeignCall_def carriesCall_def hasToolCalls_def
            split: option.splits)
    have syn: "synthesized i True messages = (if afterCall i pre then 0 else 1)"
      by (simp add: assms synthesized_append synthesized_none[OF opre] synthesized_none[OF opost] f ac)
    have car: "length (filter (carriesCall i) (formatMessagesForTools stringify v4 n0 messages opts)) = 1"
      by (simp add: formatMessagesForTools_expandAll count_calls_expandAll[OF v] syn k)
    show "length (filter (carriesCall i) (formatMessagesForTools stringify v4 n0 messages opts)) = 1
            \<and> length (filter (resultFor i) (formatMessagesForTools stringify v4 n0 messages opts)) = 1"
      using car res by simp
  qed
  show ?thesis by (rule conjI[OF a conjI[OF b conjI[OF c d]]])
qed


text \<open>
  Claim C2 as stated fails. With \<^verbatim>\<open>injectReasoningContent\<close> an assistant message does
  not pass through unchanged; and after an assistant message that carries another tool
  call no assistant message is built for the identifier of the \<^verbatim>\<open>function\<close> message, so
  that the output has a tool result and no assistant message for it.
\<close>

theorem formatMessagesForTools_changes_or_omits:
  "formatMessagesForTools JSON_stringify uuidSupply 0 [assistantDone] \<lparr>injectReasoningContent = True\<rparr> =
     [assistantDone\<lparr>reasoning_content := Some []\<rparr>]
   \<and> assistantDone\<lparr>reasoning_content := Some []\<rparr> \<noteq> assistantDone
   \<and> formatMessagesForTools JSON_stringify uuidSupply 0 [assistantWithCall, searchResult] noOptions =
     [assistantWithCall, toolResultMessage JSON_stringify ''c1'' (Text ''3 results'')]
   \<and> filter (carriesCall ''c1'')
        (formatMessagesForTools JSON_stringify uuidSupply 0 [assistantWithCall, searchResult] noOptions) = []"
  by code_simp

text \<open>
  The result of a call with the identifier \<^verbatim>\<open>c1\<close> after a user message and after the
  assistant message that carries the call, and an assistant message under
  \<^verbatim>\<open>injectReasoningContent\<close>.
\<close>

theorem formatMessagesForTools_expands_in_place_example:
  \<open>formatMessagesForTools JSON_stringify uuidSupply 0 [userHi, searchResult, assistantDone] noOptions =
     [userHi,
      assistantCallMessage noOptions ''c1'' (Some ''search'') ''{"q":"cats"}'',
      toolResultMessage JSON_stringify ''c1'' (Text ''3 results''),
      assistantDone]
   \<and> length (filter (carriesCall ''c1'')
        (formatMessagesForTools JSON_stringify uuidSupply 0 [userHi, searchResult, assistantDone] noOptions)) = 1
   \<and> length (filter (resultFor ''c1'')
        (formatMessagesForTools JSON_stringify uuidSupply 0 [userHi, searchResult, assistantDone] noOptions)) = 1
   \<and> formatMessagesForTools JSON_stringify uuidSupply 0 [assistantSearches, searchResult] noOptions =
     [assistantSearches, toolResultMessage JSON_stringify ''c1'' (Text ''3 results'')]
   \<and> carriesCall ''c1'' assistantSearches
   \<and> formatMessagesForTools JSON_stringify uuidSupply 0 [userHi, assistantDone, userHi]
        \<lparr>injectReasoningContent = True\<rparr> =
     [userHi, assistantDone\<lparr>reasoning_content := Some []\<rparr>, userHi]\<close>
proof -
  let ?ofc = "\<lparr>ofc_id = Some ''c1'', ofc_name = ''search'',
               ofc_arguments = Structured (JObject [(''q'', JString ''cats'')])\<rparr>"
  let ?F = "formatMessagesForTools JSON_stringify uuidSupply"
  have f: "role searchResult = ''function'' \<and> originalFunctionCall searchResult = Some ?ofc \<and>
           ofc_id ?ofc = Some ''c1'' \<and> ''c1'' \<noteq> []"
    by (simp add: searchResult_def)
  have fid: "functionCallId searchResult = Some ''c1''" by code_simp
  have g: "\<forall>k. ''call_'' @ uuidSupply k \<noteq> ''c1''" by simp
  have str: \<open>stringOrStringify JSON_stringify (ofc_arguments ?ofc) = ''{"q":"cats"}''\<close>
    by code_simp
  have nm: "ofc_name ?ofc = ''search''" by simp
  have cs: "content searchResult = Text ''3 results''" by (simp add: searchResult_def)

  have sp1: "[userHi, searchResult, assistantDone] = [userHi] @ searchResult # [assistantDone]" by simp
  note t1 = formatMessagesForTools_expands_in_place[OF sp1, where ofc = ?ofc and i = "''c1''"
               and stringify = JSON_stringify and ?v4.0 = uuidSupply and ?n0.0 = 0 and opts = noOptions]
  have n1: "\<not> afterCall ''c1'' [userHi] \<and> \<not> afterForeignCall ''c1'' [userHi]" by code_simp
  have pre1: "?F 0 [userHi] noOptions = [userHi]" by code_simp
  have post1: "?F (0 + freshIds [userHi]) [assistantDone] noOptions = [assistantDone]" by code_simp
  from t1 f n1 have "?F 0 [userHi, searchResult, assistantDone] noOptions =
      ?F 0 [userHi] noOptions @
      [assistantCallMessage noOptions ''c1'' (Some (ofc_name ?ofc))
         (stringOrStringify JSON_stringify (ofc_arguments ?ofc)),
       toolResultMessage JSON_stringify ''c1'' (content searchResult)] @
      ?F (0 + freshIds [userHi]) [assistantDone] noOptions"
    by blast
  then have a: \<open>?F 0 [userHi, searchResult, assistantDone] noOptions =
     [userHi,
      assistantCallMessage noOptions ''c1'' (Some ''search'') ''{"q":"cats"}'',
      toolResultMessage JSON_stringify ''c1'' (Text ''3 results''),
      assistantDone]\<close>
    by (simp only: pre1 post1 str nm cs append_Cons append_Nil)
  have h1: "filter (\<lambda>m. functionCallId m = Some ''c1'') ([userHi] @ [assistantDone]) = []
          \<and> filter (resultFor ''c1'') [userHi, searchResult, assistantDone] = []
          \<and> length (filter (carriesCall ''c1'') [userHi, searchResult, assistantDone]) =
              (if afterCall ''c1'' [userHi] then 1 else 0)"
    by code_simp
  from t1 fid n1 g h1 have b: "length (filter (carriesCall ''c1'')
        (?F 0 [userHi, searchResult, assistantDone] noOptions)) = 1
     \<and> length (filter (resultFor ''c1'')
        (?F 0 [userHi, searchResult, assistantDone] noOptions)) = 1"
    by blast

  have sp2: "[assistantSearches, searchResult] = [assistantSearches] @ searchResult # []" by simp
  note t2 = formatMessagesForTools_expands_in_place[OF sp2, where ofc = ?ofc and i = "''c1''"
               and stringify = JSON_stringify and ?v4.0 = uuidSupply and ?n0.0 = 0 and opts = noOptions]
  have n2: "afterCall ''c1'' [assistantSearches]" by code_simp
  have pre2: "?F 0 [assistantSearches] noOptions = [assistantSearches]" by code_simp
  have post2: "?F (freshIds [assistantSearches]) [] noOptions = []" by code_simp
  from t2 f n2 have "?F 0 [assistantSearches, searchResult] noOptions =
      ?F 0 [assistantSearches] noOptions @
      [toolResultMessage JSON_stringify ''c1'' (content searchResult)] @
      ?F (0 + freshIds [assistantSearches]) [] noOptions
     \<and> ?F 0 [assistantSearches] noOptions \<noteq> []
     \<and> carriesCall ''c1'' (last (?F 0 [assistantSearches] noOptions))"
    by blast
  then have c: "?F 0 [assistantSearches, searchResult] noOptions =
     [assistantSearches, toolResultMessage JSON_stringify ''c1'' (Text ''3 results'')]
     \<and> carriesCall ''c1'' assistantSearches"
    by (simp add: pre2 post2 cs)

  have sp3: "[userHi, assistantDone, userHi] = [userHi] @ assistantDone # [userHi]" by simp
  note t3 = formatMessagesForTools_expands_in_place[OF sp3, where stringify = JSON_stringify
               and ?v4.0 = uuidSupply and ?n0.0 = 0 and opts = "\<lparr>injectReasoningContent = True\<rparr>"]
  have r3: "role assistantDone \<noteq> ''function''" by (simp add: assistantDone_def)
  have pre3: "?F 0 [userHi] \<lparr>injectReasoningContent = True\<rparr> = [userHi]" by code_simp
  have post3: "tl (?F (0 + freshIds [userHi]) [assistantDone, userHi] \<lparr>injectReasoningContent = True\<rparr>) = [userHi]"
    by code_simp
  have m3: "(if injectReasoningContent \<lparr>injectReasoningContent = True\<rparr> \<and> role assistantDone = ''assistant''
                \<and> reasoning_content assistantDone = None
             then assistantDone\<lparr>reasoning_content := Some []\<rparr> else assistantDone) =
            assistantDone\<lparr>reasoning_content := Some []\<rparr>"
    by (simp add: assistantDone_def)
  from t3 r3 have "?F 0 [userHi, assistantDone, userHi] \<lparr>injectReasoningContent = True\<rparr> =
      ?F 0 [userHi] \<lparr>injectReasoningContent = True\<rparr> @
      [if injectReasoningContent \<lparr>injectReasoningContent = True\<rparr> \<and> role assistantDone = ''assistant''
                \<and> reasoning_content assistantDone = None
       then assistantDone\<lparr>reasoning_content := Some []\<rparr> else assistantDone] @
      tl (?F (0 + freshIds [userHi]) [assistantDone, userHi] \<lparr>injectReasoningContent = True\<rparr>)"
    by blast
  then have d: "?F 0 [userHi, assistantDone, userHi] \<lparr>injectReasoningContent = True\<rparr> =
     [userHi, assistantDone\<lparr>reasoning_content := Some []\<rparr>, userHi]"
    by (simp only: pre3 post3 m3 append_Cons append_Nil)
  show ?thesis using a b c d by blast
qed

section \<open>Duplicate calls on the prompt based path\<close>






















end
